theory Spec2Isabelle
  imports Main
begin

section \<open>Python strings\<close>

text \<open>
  A Python \<open>str\<close> is a sequence of code points. The model reads a \<^typ>\<open>char\<close> as one code
  point in the range U+0000 to U+00FF, so a \<^typ>\<open>string\<close> is a title over that range and
  \<^const>\<open>length\<close> counts code points as \<open>len\<close> does. The three character tables below are
  those of \<open>str.isspace\<close> (which \<open>str.split()\<close> and the regular expression class \<open>\s\<close>
  share), of the class \<open>\w\<close> and of \<open>str.lower\<close>, restricted to that range.
\<close>

definition is_space_char :: "char \<Rightarrow> bool" where
  "is_space_char c = ((of_char c :: nat) \<in> {9, 10, 11, 12, 13, 28, 29, 30, 31, 32, 133, 160})"

definition is_word_char :: "char \<Rightarrow> bool" where
  "is_word_char c =
     (let n = (of_char c :: nat) in
        (48 \<le> n \<and> n \<le> 57) \<or> (65 \<le> n \<and> n \<le> 90) \<or> n = 95 \<or> (97 \<le> n \<and> n \<le> 122) \<or>
        n \<in> {170, 178, 179, 181, 185, 186, 188, 189, 190} \<or>
        (192 \<le> n \<and> n \<le> 255 \<and> n \<noteq> 215 \<and> n \<noteq> 247))"

definition lower_char :: "char \<Rightarrow> char" where
  "lower_char c =
     (let n = (of_char c :: nat) in
        if (65 \<le> n \<and> n \<le> 90) \<or> (192 \<le> n \<and> n \<le> 222 \<and> n \<noteq> 215)
        then char_of (n + 32) else c)"

text \<open>\<open>s.lower()\<close>\<close>

definition py_lower :: "string \<Rightarrow> string" where
  "py_lower s = map lower_char s"

text \<open>
  \<open>s.split()\<close>: the maximal runs of characters that are not whitespace, in order. The first
  argument of \<open>split_ws\<close> is the run read so far.
\<close>

fun split_ws :: "string \<Rightarrow> string \<Rightarrow> string list" where
  "split_ws w [] = (if w = [] then [] else [w])"
| "split_ws w (c # cs) =
     (if is_space_char c then (if w = [] then split_ws [] cs else w # split_ws [] cs)
      else split_ws (w @ [c]) cs)"

definition py_split :: "string \<Rightarrow> string list" where
  "py_split s = split_ws [] s"

text \<open>\<open>sep.join(ws)\<close>\<close>

fun py_join :: "string \<Rightarrow> string list \<Rightarrow> string" where
  "py_join sep [] = []"
| "py_join sep [w] = w"
| "py_join sep (w # v # ws) = w @ sep @ py_join sep (v # ws)"

text \<open>\<open>a in b\<close> on strings: \<open>a\<close> occurs in \<open>b\<close> as a contiguous piece.\<close>

fun is_prefix :: "string \<Rightarrow> string \<Rightarrow> bool" where
  "is_prefix [] b = True"
| "is_prefix (x # a) [] = False"
| "is_prefix (x # a) (y # b) = (x = y \<and> is_prefix a b)"

fun py_in :: "string \<Rightarrow> string \<Rightarrow> bool" where
  "py_in a [] = (a = [])"
| "py_in a (y # b) = (is_prefix a (y # b) \<or> py_in a b)"

section \<open>Title normalisation (\<open>sonarr_client.py\<close>)\<close>

text \<open>\<open>re.sub(r'[^\w\s]', '', cleaned)\<close>\<close>

definition strip_punct :: "string \<Rightarrow> string" where
  "strip_punct s = filter (\<lambda>c. is_word_char c \<or> is_space_char c) s"

definition common_words :: "string list" where
  "common_words = [''the'', ''a'', ''an'']"

text \<open>
  \<open>SonarrClient._clean_title\<close>. A falsy title (empty, or \<open>None\<close> at the call sites that pass
  an absent title) gives the empty string.
\<close>

definition clean_title :: "string \<Rightarrow> string" where
  "clean_title title =
     (if title = [] then []
      else
        let cleaned = py_lower title;
            cleaned = strip_punct cleaned;
            cleaned = py_join '' '' (py_split cleaned);
            words = py_split cleaned;
            cleaned_words = filter (\<lambda>w. w \<notin> set common_words) words
        in if cleaned_words \<noteq> [] then py_join '' '' cleaned_words else cleaned)"

text \<open>
  The words of a title once it is lower-cased and stripped of punctuation: the list
  \<open>words\<close> of \<open>_clean_title\<close> before the common words are filtered out.
\<close>

definition title_words :: "string \<Rightarrow> string list" where
  "title_words title = py_split (strip_punct (py_lower title))"

definition norm_word :: "string \<Rightarrow> bool" where
  "norm_word w =
     (w \<noteq> [] \<and> (\<forall>c\<in>set w. \<not> is_space_char c \<and> is_word_char c \<and> lower_char c = c))"

section \<open>Python values\<close>

text \<open>\<open>str(n)\<close> on an integer: its decimal digits, with a minus sign when negative.\<close>

fun str_of_nat :: "nat \<Rightarrow> string" where
  "str_of_nat n =
     (if n < 10 then [char_of (48 + n)] else str_of_nat (n div 10) @ [char_of (48 + n mod 10)])"

declare str_of_nat.simps [simp del]

definition str_of_int :: "int \<Rightarrow> string" where
  "str_of_int i = (if i < 0 then CHR ''-'' # str_of_nat (nat (- i)) else str_of_nat (nat i))"

text \<open>
  Truthiness of an optional value, as \<open>if x:\<close> tests it: \<open>None\<close>, the empty string and the
  number zero are falsy.
\<close>

definition truthy_str :: "string option \<Rightarrow> bool" where
  "truthy_str x = (case x of None \<Rightarrow> False | Some s \<Rightarrow> s \<noteq> [])"

definition truthy_int :: "int option \<Rightarrow> bool" where
  "truthy_int x = (case x of None \<Rightarrow> False | Some n \<Rightarrow> n \<noteq> 0)"

text \<open>\<open>str(x)\<close> where \<open>x\<close> is an integer or \<open>None\<close>.\<close>

definition str_of_int_option :: "int option \<Rightarrow> string" where
  "str_of_int_option x = (case x of None \<Rightarrow> ''None'' | Some n \<Rightarrow> str_of_int n)"

section \<open>Remote calls, exceptions and the audit status\<close>

text \<open>\<open>models.SyncStatus\<close> and \<open>models.SyncAction\<close>\<close>

datatype sync_status = PENDING | PROCESSING | COMPLETED | FAILED

datatype sync_action = MONITOR | UNMONITOR

text \<open>
  A request to Sonarr, Radarr or Jellyfin: one per call of a client's \<open>_make_request\<close>,
  whose retries it stands for. The requests with \<open>PUT\<close> are the monitoring updates.
\<close>

datatype call =
    Sonarr_GET_series
  | Sonarr_GET_series_lookup string
  | Sonarr_GET_series_id int
  | Sonarr_PUT_series_id int bool
  | Sonarr_GET_episode_list int
  | Sonarr_GET_episode_id int
  | Sonarr_PUT_episode_id int bool
  | Sonarr_PUT_episode_monitor "int list" bool
  | Radarr_GET_movie
  | Radarr_GET_movie_lookup string
  | Radarr_GET_movie_id int
  | Radarr_PUT_movie_id int bool
  | Jellyfin_GET_item string

fun is_monitoring_call :: "call \<Rightarrow> bool" where
  "is_monitoring_call (Sonarr_PUT_series_id _ _) = True"
| "is_monitoring_call (Sonarr_PUT_episode_id _ _) = True"
| "is_monitoring_call (Sonarr_PUT_episode_monitor _ _) = True"
| "is_monitoring_call (Radarr_PUT_movie_id _ _) = True"
| "is_monitoring_call _ = False"

text \<open>
  What a run of the pipeline leaves behind besides the store: the requests it sent, the
  selects on a mapping table (by media item id) and the writes to the status of an
  existing \<open>SyncLog\<close> row (row id, old status, new status), in the order they happened.
\<close>

datatype event =
    Remote call
  | Select_sonarr_mapping nat
  | Select_radarr_mapping nat
  | Status_write nat sync_status sync_status

fun remote_calls :: "event list \<Rightarrow> call list" where
  "remote_calls [] = []"
| "remote_calls (Remote c # es) = c # remote_calls es"
| "remote_calls (_ # es) = remote_calls es"

text \<open>
  The exceptions that reach the modelled code: \<open>_make_request\<close> re-raises the error of a
  request that failed on every attempt, and indexing an empty list raises.
\<close>

datatype exn = RequestError | IndexError

text \<open>
  A computation that sends requests: the requests in the order they were sent, and either the
  exception that ended it or its result.
\<close>

type_synonym 'a io = "call list \<times> (exn + 'a)"

definition io_return :: "'a \<Rightarrow> 'a io" where
  "io_return x = ([], Inr x)"

definition io_raise :: "exn \<Rightarrow> 'a io" where
  "io_raise e = ([], Inl e)"

definition io_bind :: "'a io \<Rightarrow> ('a \<Rightarrow> 'b io) \<Rightarrow> 'b io" where
  "io_bind m f =
     (case m of
        (es, Inl e) \<Rightarrow> (es, Inl e)
      | (es, Inr x) \<Rightarrow> (case f x of (es', r) \<Rightarrow> (es @ es', r)))"

text \<open>\<open>try: m except Exception: h\<close>\<close>

definition io_catch :: "'a io \<Rightarrow> 'a io \<Rightarrow> 'a io" where
  "io_catch m h =
     (case m of
        (es, Inl e) \<Rightarrow> (case h of (es', r) \<Rightarrow> (es @ es', r))
      | (es, Inr x) \<Rightarrow> (es, Inr x))"

text \<open>
  The answer of a service to one request, as \<open>_make_request\<close> hands it on: the request
  raises, or the response has no content (\<open>None\<close>), or it carries a body.
\<close>

datatype 'a reply = Raises | No_content | Content 'a

definition make_request :: "call \<Rightarrow> 'a reply \<Rightarrow> 'a option io" where
  "make_request e r =
     ([e], case r of Raises \<Rightarrow> Inl RequestError | No_content \<Rightarrow> Inr None
                   | Content x \<Rightarrow> Inr (Some x))"

section \<open>The Sonarr client (\<open>sonarr_client.py\<close>)\<close>

text \<open>
  The fields of a Sonarr series and episode resource that the client reads, typed as the
  Sonarr API types them; an absent or null field is \<open>None\<close>. \<open>series_alternateTitles\<close>
  holds the \<open>title\<close> of each entry of \<open>alternateTitles\<close>. An episode resource always has
  the key \<open>seasonNumber\<close>, so \<open>None\<close> in \<open>episode_seasonNumber\<close> is a null season number.
\<close>

record series =
  series_resource_id :: int
  series_title :: string
  series_year :: "int option"
  series_tvdbId :: "int option"
  series_imdbId :: "string option"
  series_alternateTitles :: "string list"

record episode =
  episode_resource_id :: int
  episode_seasonNumber :: "int option"
  episode_episodeNumber :: "int option"

text \<open>The Sonarr instance: its answer to each request the client sends.\<close>

record sonarr =
  sn_series :: "series list reply"
  sn_series_lookup :: "string \<Rightarrow> series list reply"
  sn_series_id :: "int \<Rightarrow> series reply"
  sn_put_series_id :: "int \<Rightarrow> bool \<Rightarrow> series reply"
  sn_episode_list :: "int \<Rightarrow> episode list reply"
  sn_episode_id :: "int \<Rightarrow> episode reply"
  sn_put_episode_id :: "int \<Rightarrow> bool \<Rightarrow> episode reply"
  sn_put_episode_monitor :: "int list \<Rightarrow> bool \<Rightarrow> episode list reply"

text \<open>\<open>get_all_series\<close>: \<open>result if result else []\<close>\<close>

definition get_all_series :: "sonarr \<Rightarrow> series list io" where
  "get_all_series sn =
     io_bind (make_request Sonarr_GET_series (sn_series sn))
       (\<lambda>result. io_return (case result of None \<Rightarrow> [] | Some xs \<Rightarrow> xs))"

text \<open>\<open>search_series_by_title\<close>, with its three strategies in order.\<close>

definition search_series_by_title :: "sonarr \<Rightarrow> string \<Rightarrow> series list io" where
  "search_series_by_title sn title =
     io_bind (get_all_series sn) (\<lambda>series_list.
       if series_list = [] then io_return []
       else
         let title_clean = clean_title title;
             exact = filter (\<lambda>s. title_clean = clean_title (series_title s)) series_list;
             contains = filter (\<lambda>s.
                 (py_in title_clean (clean_title (series_title s))
                    \<or> py_in (clean_title (series_title s)) title_clean)
                 \<and> length title_clean > 3) series_list;
             alternate = filter (\<lambda>s.
                 \<exists>alt_title \<in> set (series_alternateTitles s).
                    title_clean = clean_title alt_title
                    \<or> (py_in title_clean (clean_title alt_title) \<and> length title_clean > 3))
               series_list
         in io_return (if exact \<noteq> [] then exact
                       else if contains \<noteq> [] then contains
                       else alternate))"

text \<open>\<open>search_series_lookup\<close>: any exception is logged and gives the empty list.\<close>

definition search_series_lookup :: "sonarr \<Rightarrow> string \<Rightarrow> series list io" where
  "search_series_lookup sn term =
     io_catch
       (io_bind (make_request (Sonarr_GET_series_lookup term) (sn_series_lookup sn term))
          (\<lambda>result. io_return (case result of None \<Rightarrow> [] | Some xs \<Rightarrow> xs)))
       (io_return [])"

text \<open>
  The tests of priority 1. \<open>series_tvdb\<close> is \<open>str(tvdbId)\<close> when the series has a truthy
  \<open>tvdbId\<close>, and the series matches when \<open>str(tvdb_id)\<close> equals it; likewise for
  \<open>imdbId\<close>, which is compared as it is.
\<close>

definition series_tvdb_match :: "string \<Rightarrow> series \<Rightarrow> bool" where
  "series_tvdb_match tvdb_id s =
     (let series_tvdb = (if truthy_int (series_tvdbId s)
                         then Some (str_of_int_option (series_tvdbId s)) else None)
      in truthy_str series_tvdb \<and> Some tvdb_id = series_tvdb)"

definition series_imdb_match :: "string \<Rightarrow> series \<Rightarrow> bool" where
  "series_imdb_match imdb_id s =
     (let series_imdb = (if truthy_str (series_imdbId s) then series_imdbId s else None)
      in truthy_str series_imdb \<and> Some imdb_id = series_imdb)"

text \<open>\<open>for x in xs: if p(x): return x\<close>\<close>

fun first_match :: "('a \<Rightarrow> bool) \<Rightarrow> 'a list \<Rightarrow> 'a option" where
  "first_match p [] = None"
| "first_match p (x # xs) = (if p x then Some x else first_match p xs)"

text \<open>
  The two loops of priority 1, each under its guard \<open>if tvdb_id:\<close> or \<open>if imdb_id:\<close>; the
  result is the series the loop returns, \<open>None\<close> when it returns nothing.
\<close>

definition series_by_tvdb :: "string option \<Rightarrow> series list \<Rightarrow> series option" where
  "series_by_tvdb tvdb_id series_list =
     (case tvdb_id of
        None \<Rightarrow> None
      | Some t \<Rightarrow> if t = [] then None else first_match (series_tvdb_match t) series_list)"

definition series_by_imdb :: "string option \<Rightarrow> series list \<Rightarrow> series option" where
  "series_by_imdb imdb_id series_list =
     (case imdb_id of
        None \<Rightarrow> None
      | Some i \<Rightarrow> if i = [] then None else first_match (series_imdb_match i) series_list)"

text \<open>
  \<open>[s for s in matches if s.get("year") and abs(s.get("year") - year) <= 1]\<close>, which the
  code builds only under \<open>if year\<close>.
\<close>

definition year_within_one :: "int \<Rightarrow> int option \<Rightarrow> bool" where
  "year_within_one year y = (case y of None \<Rightarrow> False | Some v \<Rightarrow> v \<noteq> 0 \<and> \<bar>v - year\<bar> \<le> 1)"

text \<open>
  The year filter: the entries within one year replace the list when there are any. It
  runs on the title matches under \<open>if year and len(matches) > 1\<close> (\<open>several\<close> is true)
  and on the lookup results under \<open>if year\<close> (\<open>several\<close> is false).
\<close>

definition filter_series_by_year :: "bool \<Rightarrow> int option \<Rightarrow> series list \<Rightarrow> series list" where
  "filter_series_by_year several year matches =
     (case year of
        None \<Rightarrow> matches
      | Some y \<Rightarrow>
          if y \<noteq> 0 \<and> (if several then length matches > 1 else True)
          then (let year_matches = filter (\<lambda>s. year_within_one y (series_year s)) matches
                in if year_matches \<noteq> [] then year_matches else matches)
          else matches)"

text \<open>\<open>xs[0]\<close>\<close>

definition first_item :: "'a list \<Rightarrow> 'a io" where
  "first_item xs = (case xs of [] \<Rightarrow> io_raise IndexError | x # _ \<Rightarrow> io_return x)"

text \<open>
  The last tier of \<open>find_series_by_jellyfin_metadata\<close>: for each lookup result with a truthy
  \<open>tvdbId\<close>, fetch the series of Sonarr again and return the first one whose \<open>str(tvdbId)\<close>
  equals that of the lookup result.
\<close>

fun lookup_existing_series :: "sonarr \<Rightarrow> series list \<Rightarrow> series option io" where
  "lookup_existing_series sn [] = io_return None"
| "lookup_existing_series sn (lookup_series # rest) =
     (if truthy_int (series_tvdbId lookup_series)
      then (case get_all_series sn of
              (es, Inl e) \<Rightarrow> (es, Inl e)
            | (es, Inr series_list) \<Rightarrow>
                (case first_match (\<lambda>existing_series.
                        str_of_int_option (series_tvdbId existing_series)
                          = str_of_int_option (series_tvdbId lookup_series)) series_list of
                   Some existing_series \<Rightarrow> (es, Inr (Some existing_series))
                 | None \<Rightarrow> (case lookup_existing_series sn rest of (es', r) \<Rightarrow> (es @ es', r))))
      else lookup_existing_series sn rest)"

text \<open>\<open>find_series_by_jellyfin_metadata\<close>\<close>

definition find_series_by_jellyfin_metadata ::
  "sonarr \<Rightarrow> string \<Rightarrow> int option \<Rightarrow> string option \<Rightarrow> string option \<Rightarrow> series option io" where
  "find_series_by_jellyfin_metadata sn title year tvdb_id imdb_id =
     io_bind
       (if truthy_str tvdb_id \<or> truthy_str imdb_id
        then io_bind (get_all_series sn) (\<lambda>series_list.
               io_return
                 (case series_by_tvdb tvdb_id series_list of
                    Some s \<Rightarrow> Some s
                  | None \<Rightarrow> series_by_imdb imdb_id series_list))
        else io_return None)
       (\<lambda>id_match. case id_match of
          Some s \<Rightarrow> io_return (Some s)
        | None \<Rightarrow>
            io_bind (search_series_by_title sn title) (\<lambda>matches.
              if matches \<noteq> []
              then
                io_bind (first_item (filter_series_by_year True year matches))
                  (\<lambda>best_match. io_return (Some best_match))
              else
                io_bind (search_series_lookup sn title) (\<lambda>lookup_results.
                  if lookup_results \<noteq> []
                  then lookup_existing_series sn (filter_series_by_year False year lookup_results)
                  else io_return None)))"

text \<open>
  A series is matched by a supplied external id when the query carries a truthy TVDB id
  that passes the TVDB test on it, or a truthy IMDB id that passes the IMDB test.
\<close>

definition series_id_match :: "string option \<Rightarrow> string option \<Rightarrow> series \<Rightarrow> bool" where
  "series_id_match tvdb_id imdb_id s =
     ((case tvdb_id of None \<Rightarrow> False | Some t \<Rightarrow> t \<noteq> [] \<and> series_tvdb_match t s)
      \<or> (case imdb_id of None \<Rightarrow> False | Some i \<Rightarrow> i \<noteq> [] \<and> series_imdb_match i s))"

section \<open>The Radarr client (\<open>radarr_client.py\<close>)\<close>

text \<open>
  The fields of a Radarr movie resource that the client reads; \<open>movie_alternativeTitles\<close>
  holds the \<open>title\<close> of each entry of \<open>alternativeTitles\<close>.
\<close>

record movie =
  movie_resource_id :: int
  movie_title :: string
  movie_originalTitle :: string
  movie_alternativeTitles :: "string list"
  movie_year :: "int option"
  movie_tmdbId :: "int option"
  movie_imdbId :: "string option"

record radarr =
  rd_movie :: "movie list reply"
  rd_movie_lookup :: "string \<Rightarrow> movie list reply"
  rd_movie_id :: "int \<Rightarrow> movie reply"
  rd_put_movie_id :: "int \<Rightarrow> bool \<Rightarrow> movie reply"

definition get_all_movies :: "radarr \<Rightarrow> movie list io" where
  "get_all_movies rd =
     io_bind (make_request Radarr_GET_movie (rd_movie rd))
       (\<lambda>result. io_return (case result of None \<Rightarrow> [] | Some xs \<Rightarrow> xs))"

text \<open>\<open>search_movies_by_title\<close>\<close>

definition search_movies_by_title :: "radarr \<Rightarrow> string \<Rightarrow> movie list io" where
  "search_movies_by_title rd title =
     io_bind (get_all_movies rd) (\<lambda>movies_list.
       if movies_list = [] then io_return []
       else
         let title_lower = py_lower title
         in io_return (filter (\<lambda>movie.
              let all_titles = [py_lower (movie_title movie), py_lower (movie_originalTitle movie)]
                                 @ map py_lower (movie_alternativeTitles movie)
              in \<exists>t \<in> set all_titles. t \<noteq> [] \<and> (py_in title_lower t \<or> py_in t title_lower))
            movies_list))"

text \<open>\<open>search_movie_lookup\<close>: unlike its Sonarr sibling it lets the exception through.\<close>

definition search_movie_lookup :: "radarr \<Rightarrow> string \<Rightarrow> movie list io" where
  "search_movie_lookup rd term =
     io_bind (make_request (Radarr_GET_movie_lookup term) (rd_movie_lookup rd term))
       (\<lambda>result. io_return (case result of None \<Rightarrow> [] | Some xs \<Rightarrow> xs))"

text \<open>
  The two tests in the loop of priority 1: \<open>tmdb_id and movie_tmdb and str(tmdb_id) ==
  movie_tmdb\<close>, then \<open>imdb_id and movie_imdb and str(imdb_id) == movie_imdb\<close>.
\<close>

definition movie_tmdb_match :: "string option \<Rightarrow> movie \<Rightarrow> bool" where
  "movie_tmdb_match tmdb_id m =
     (let movie_tmdb = (if truthy_int (movie_tmdbId m)
                        then Some (str_of_int_option (movie_tmdbId m)) else None)
      in truthy_str tmdb_id \<and> truthy_str movie_tmdb \<and> tmdb_id = movie_tmdb)"

definition movie_imdb_match :: "string option \<Rightarrow> movie \<Rightarrow> bool" where
  "movie_imdb_match imdb_id m =
     (let movie_imdb = (if truthy_str (movie_imdbId m) then movie_imdbId m else None)
      in truthy_str imdb_id \<and> truthy_str movie_imdb \<and> imdb_id = movie_imdb)"

text \<open>The loop of priority 1: one pass over the movies, both tests on each movie.\<close>

fun movie_by_ids :: "string option \<Rightarrow> string option \<Rightarrow> movie list \<Rightarrow> movie option" where
  "movie_by_ids tmdb_id imdb_id [] = None"
| "movie_by_ids tmdb_id imdb_id (movie # rest) =
     (if movie_tmdb_match tmdb_id movie then Some movie
      else if movie_imdb_match imdb_id movie then Some movie
      else movie_by_ids tmdb_id imdb_id rest)"

definition filter_movies_by_year :: "bool \<Rightarrow> int option \<Rightarrow> movie list \<Rightarrow> movie list" where
  "filter_movies_by_year several year matches =
     (case year of
        None \<Rightarrow> matches
      | Some y \<Rightarrow>
          if y \<noteq> 0 \<and> (if several then length matches > 1 else True)
          then (let year_matches = filter (\<lambda>m. year_within_one y (movie_year m)) matches
                in if year_matches \<noteq> [] then year_matches else matches)
          else matches)"

fun lookup_existing_movie :: "radarr \<Rightarrow> movie list \<Rightarrow> movie option io" where
  "lookup_existing_movie rd [] = io_return None"
| "lookup_existing_movie rd (lookup_movie # rest) =
     (if truthy_int (movie_tmdbId lookup_movie)
      then (case get_all_movies rd of
              (es, Inl e) \<Rightarrow> (es, Inl e)
            | (es, Inr movies_list) \<Rightarrow>
                (case first_match (\<lambda>existing_movie.
                        str_of_int_option (movie_tmdbId existing_movie)
                          = str_of_int_option (movie_tmdbId lookup_movie)) movies_list of
                   Some existing_movie \<Rightarrow> (es, Inr (Some existing_movie))
                 | None \<Rightarrow> (case lookup_existing_movie rd rest of (es', r) \<Rightarrow> (es @ es', r))))
      else lookup_existing_movie rd rest)"

text \<open>\<open>find_movie_by_jellyfin_metadata\<close>\<close>

definition find_movie_by_jellyfin_metadata ::
  "radarr \<Rightarrow> string \<Rightarrow> int option \<Rightarrow> string option \<Rightarrow> string option \<Rightarrow> movie option io" where
  "find_movie_by_jellyfin_metadata rd title year tmdb_id imdb_id =
     io_bind
       (if truthy_str tmdb_id \<or> truthy_str imdb_id
        then io_bind (get_all_movies rd) (\<lambda>movies_list.
               io_return (movie_by_ids tmdb_id imdb_id movies_list))
        else io_return None)
       (\<lambda>id_match. case id_match of
          Some m \<Rightarrow> io_return (Some m)
        | None \<Rightarrow>
            io_bind (search_movies_by_title rd title) (\<lambda>matches.
              if matches \<noteq> []
              then
                io_bind (first_item (filter_movies_by_year True year matches))
                  (\<lambda>best_match. io_return (Some best_match))
              else
                io_bind (search_movie_lookup rd title) (\<lambda>lookup_results.
                  if lookup_results \<noteq> []
                  then lookup_existing_movie rd (filter_movies_by_year False year lookup_results)
                  else io_return None)))"

text \<open>A movie is matched by a supplied external id when it passes one of the two tests.\<close>

definition movie_id_match :: "string option \<Rightarrow> string option \<Rightarrow> movie \<Rightarrow> bool" where
  "movie_id_match tmdb_id imdb_id m = (movie_tmdb_match tmdb_id m \<or> movie_imdb_match imdb_id m)"

section \<open>Monitoring updates (\<open>sonarr_client.py\<close>, \<open>radarr_client.py\<close>)\<close>

text \<open>
  Each update function catches every exception and answers \<open>False\<close>; the requests it
  had sent by then stay sent. \<open>ignore_special_episodes\<close> is the setting of that name.
\<close>

definition get_series_by_id :: "sonarr \<Rightarrow> int \<Rightarrow> series option io" where
  "get_series_by_id sn series_id = make_request (Sonarr_GET_series_id series_id) (sn_series_id sn series_id)"

definition get_episode_by_id :: "sonarr \<Rightarrow> int \<Rightarrow> episode option io" where
  "get_episode_by_id sn episode_id =
     make_request (Sonarr_GET_episode_id episode_id) (sn_episode_id sn episode_id)"

text \<open>
  \<open>get_episodes_for_series\<close>. Without specials, the episodes whose \<open>seasonNumber\<close> is 0
  are dropped (\<open>ep.get("seasonNumber", 0) != 0\<close>); an episode whose \<open>seasonNumber\<close> is
  null is kept.
\<close>

definition get_episodes_for_series :: "sonarr \<Rightarrow> int \<Rightarrow> bool \<Rightarrow> episode list io" where
  "get_episodes_for_series sn series_id include_specials =
     io_bind (make_request (Sonarr_GET_episode_list series_id) (sn_episode_list sn series_id))
       (\<lambda>result.
          let episodes = (case result of None \<Rightarrow> [] | Some xs \<Rightarrow> xs)
          in io_return
               (if \<not> include_specials
                then filter (\<lambda>ep. episode_seasonNumber ep \<noteq> Some 0) episodes
                else episodes))"

text \<open>\<open>search_episode\<close>\<close>

definition search_episode :: "sonarr \<Rightarrow> int \<Rightarrow> int option \<Rightarrow> int option \<Rightarrow> episode option io" where
  "search_episode sn series_id season_number episode_number =
     io_bind (get_episodes_for_series sn series_id True) (\<lambda>episodes.
       io_return (first_match (\<lambda>episode.
           episode_seasonNumber episode = season_number
           \<and> episode_episodeNumber episode = episode_number) episodes))"

text \<open>\<open>update_series_monitoring\<close>\<close>

definition update_series_monitoring :: "sonarr \<Rightarrow> int \<Rightarrow> bool \<Rightarrow> bool io" where
  "update_series_monitoring sn series_id monitored =
     io_catch
       (io_bind (get_series_by_id sn series_id) (\<lambda>series.
          case series of
            None \<Rightarrow> io_return False
          | Some _ \<Rightarrow>
              io_bind (make_request (Sonarr_PUT_series_id series_id monitored)
                         (sn_put_series_id sn series_id monitored))
                (\<lambda>result. io_return (result \<noteq> None))))
       (io_return False)"

text \<open>
  \<open>update_episode_monitoring\<close>: the episode is fetched first; the special-episode test
  reads the \<open>seasonNumber\<close> of the fetched episode.
\<close>

definition update_episode_monitoring :: "sonarr \<Rightarrow> bool \<Rightarrow> int \<Rightarrow> bool \<Rightarrow> bool io" where
  "update_episode_monitoring sn ignore_special_episodes episode_id monitored =
     io_catch
       (io_bind (get_episode_by_id sn episode_id) (\<lambda>episode.
          case episode of
            None \<Rightarrow> io_return False
          | Some ep \<Rightarrow>
              if episode_seasonNumber ep = Some 0 \<and> ignore_special_episodes
              then io_return True
              else
                io_bind (make_request (Sonarr_PUT_episode_id episode_id monitored)
                           (sn_put_episode_id sn episode_id monitored))
                  (\<lambda>result. io_return (result \<noteq> None))))
       (io_return False)"

text \<open>\<open>bulk_update_episode_monitoring\<close>: success is \<open>result is not None\<close>.\<close>

definition bulk_update_episode_monitoring :: "sonarr \<Rightarrow> int list \<Rightarrow> bool \<Rightarrow> bool io" where
  "bulk_update_episode_monitoring sn episode_ids monitored =
     io_catch
       (io_bind (make_request (Sonarr_PUT_episode_monitor episode_ids monitored)
                   (sn_put_episode_monitor sn episode_ids monitored))
          (\<lambda>result. io_return (result \<noteq> None)))
       (io_return False)"

text \<open>
  \<open>_fallback_season_monitoring\<close>: one update per episode; \<open>fallback_count\<close> is the loop
  with its counter, and the answer is \<open>success_count > 0\<close>.
\<close>

fun fallback_count :: "sonarr \<Rightarrow> bool \<Rightarrow> episode list \<Rightarrow> bool \<Rightarrow> nat io" where
  "fallback_count sn ignore_special_episodes [] monitored = io_return 0"
| "fallback_count sn ignore_special_episodes (episode # rest) monitored =
     (case update_episode_monitoring sn ignore_special_episodes (episode_resource_id episode) monitored of
        (es, Inl e) \<Rightarrow> (es, Inl e)
      | (es, Inr ok) \<Rightarrow>
          (case fallback_count sn ignore_special_episodes rest monitored of
             (es', Inl e) \<Rightarrow> (es @ es', Inl e)
           | (es', Inr n) \<Rightarrow> (es @ es', Inr (if ok then Suc n else n))))"

definition fallback_season_monitoring :: "sonarr \<Rightarrow> bool \<Rightarrow> episode list \<Rightarrow> bool \<Rightarrow> bool io" where
  "fallback_season_monitoring sn ignore_special_episodes season_episodes monitored =
     io_bind (fallback_count sn ignore_special_episodes season_episodes monitored)
       (\<lambda>success_count. io_return (success_count > 0))"

text \<open>
  \<open>update_season_monitoring\<close>. The season number is the one the caller passes, which is
  \<open>None\<close> when the mapping row holds none.
\<close>

definition update_season_monitoring :: "sonarr \<Rightarrow> bool \<Rightarrow> int \<Rightarrow> int option \<Rightarrow> bool \<Rightarrow> bool io" where
  "update_season_monitoring sn ignore_special_episodes series_id season_number monitored =
     io_catch
       (if season_number = Some 0 \<and> ignore_special_episodes then io_return True
        else
          io_bind (get_episodes_for_series sn series_id True) (\<lambda>episodes.
            let season_episodes =
                  filter (\<lambda>ep. episode_seasonNumber ep = season_number) episodes
            in if season_episodes = [] then io_return False
               else
                 let episode_ids = map episode_resource_id season_episodes
                 in io_bind (bulk_update_episode_monitoring sn episode_ids monitored) (\<lambda>success.
                      if success then io_return True
                      else fallback_season_monitoring sn ignore_special_episodes
                             season_episodes monitored)))
       (io_return False)"

text \<open>\<open>RadarrClient.update_movie_monitoring\<close>\<close>

definition update_movie_monitoring :: "radarr \<Rightarrow> int \<Rightarrow> bool \<Rightarrow> bool io" where
  "update_movie_monitoring rd movie_id monitored =
     io_catch
       (io_bind (make_request (Radarr_GET_movie_id movie_id) (rd_movie_id rd movie_id)) (\<lambda>movie.
          case movie of
            None \<Rightarrow> io_return False
          | Some _ \<Rightarrow>
              io_bind (make_request (Radarr_PUT_movie_id movie_id monitored)
                         (rd_put_movie_id rd movie_id monitored))
                (\<lambda>result. io_return (result \<noteq> None))))
       (io_return False)"

section \<open>The record store (\<open>models.py\<close>)\<close>

text \<open>
  The tables the pipeline reads and writes, one list of rows each, with the columns the
  pipeline uses (timestamps are left out). The store is the reliable collaborator of the
  design: a statement on it returns, and a commit makes the rows written so far durable.
  \<open>media_type\<close> is a string column; \<open>models.MediaType\<close> is a string enumeration whose
  members are equal to their values.
\<close>

definition MOVIE :: string where "MOVIE = ''movie''"
definition EPISODE :: string where "EPISODE = ''episode''"
definition SERIES :: string where "SERIES = ''series''"
definition SEASON :: string where "SEASON = ''season''"

record media_item =
  mi_id :: nat
  mi_jellyfin_id :: string
  mi_title :: string
  mi_media_type :: string
  mi_is_watched :: bool
  mi_parent_id :: "string option"
  mi_series_name :: "string option"
  mi_season_number :: "int option"
  mi_episode_number :: "int option"

record sonarr_mapping =
  sm_media_item_id :: nat
  sonarr_series_id :: int
  sonarr_episode_id :: "int option"
  sonarr_season_number :: "int option"
  sm_is_monitored :: bool

record radarr_mapping =
  rm_media_item_id :: nat
  radarr_movie_id :: int
  rm_is_monitored :: bool

record sync_log =
  log_id :: nat
  log_media_item_id :: nat
  log_series_name :: string
  log_action :: sync_action
  log_status :: sync_status
  log_service :: string
  log_external_id :: "string option"
  log_error_message :: "string option"

record store =
  media_items :: "media_item list"
  sonarr_mappings :: "sonarr_mapping list"
  radarr_mappings :: "radarr_mapping list"
  sync_logs :: "sync_log list"

text \<open>The key an autoincrement column gives the next row: one more than the largest.\<close>

definition fresh_id :: "nat list \<Rightarrow> nat" where
  "fresh_id ids = Suc (fold max ids 0)"

text \<open>Assigning to the attributes of the rows a select returned.\<close>

definition update_where :: "('a \<Rightarrow> bool) \<Rightarrow> ('a \<Rightarrow> 'a) \<Rightarrow> 'a list \<Rightarrow> 'a list" where
  "update_where p f rows = map (\<lambda>row. if p row then f row else row) rows"

text \<open>
  \<open>sync_log.status = new_status\<close> on the row with the given id, together with the other
  assignments \<open>f\<close> made to it: the store after the write and one \<open>Status_write\<close> event that
  carries the status the row had.
\<close>

definition write_status ::
  "store \<Rightarrow> nat \<Rightarrow> sync_status \<Rightarrow> (sync_log \<Rightarrow> sync_log) \<Rightarrow> store \<times> event list" where
  "write_status st lid new_status f =
     (st\<lparr>sync_logs :=
           update_where (\<lambda>l. log_id l = lid) (\<lambda>l. f (l\<lparr>log_status := new_status\<rparr>)) (sync_logs st)\<rparr>,
      map (\<lambda>l. Status_write lid (log_status l) new_status)
        (filter (\<lambda>l. log_id l = lid) (sync_logs st)))"

section \<open>The webhook handler (\<open>webhook_handler.py\<close>)\<close>

text \<open>
  The normalised event (\<open>webhook_data\<close>), with the keys the sync pipeline reads. A key that
  is absent is \<open>None\<close>; a key that is present carries a value of its type.
\<close>

record webhook_data =
  wd_jellyfin_id :: string
  wd_user_id :: string
  wd_is_watched :: "bool option"
  wd_item_name :: "string option"
  wd_item_type :: "string option"
  wd_series_id :: "string option"
  wd_series_name :: "string option"
  wd_season_number :: "int option"
  wd_episode_number :: "int option"
  wd_year :: "int option"
  wd_tvdb_id :: "string option"
  wd_imdb_id :: "string option"
  wd_tmdb_id :: "string option"

text \<open>
  The Jellyfin item that \<open>get_item_by_id\<close> returns, with the fields that
  \<open>extract_media_info\<close> reads; \<open>item_Played\<close> is \<open>UserData.Played\<close>, \<open>None\<close> when the item
  has no user data.
\<close>

record jellyfin_item =
  item_Id :: "string option"
  item_Name :: string
  item_Type :: string
  item_ParentId :: "string option"
  item_SeriesName :: "string option"
  item_ParentIndexNumber :: "int option"
  item_IndexNumber :: "int option"
  item_Played :: "bool option"

record media_info =
  info_jellyfin_id :: "string option"
  info_title :: string
  info_media_type :: string
  info_is_watched :: "bool option"
  info_parent_id :: "string option"
  info_series_name :: "string option"
  info_season_number :: "int option"
  info_episode_number :: "int option"

text \<open>\<open>JellyfinClient.extract_media_info\<close>\<close>

definition extract_media_info :: "jellyfin_item \<Rightarrow> media_info" where
  "extract_media_info item =
     \<lparr>info_jellyfin_id = item_Id item, info_title = item_Name item,
      info_media_type = py_lower (item_Type item), info_is_watched = item_Played item,
      info_parent_id = item_ParentId item, info_series_name = item_SeriesName item,
      info_season_number = item_ParentIndexNumber item,
      info_episode_number = item_IndexNumber item\<rparr>"

text \<open>
  The collaborators of the handler: the two library services, the answer of Jellyfin to
  \<open>get_item_by_id\<close>, the setting \<open>ignore_special_episodes\<close>, and the two resolution
  cascades \<open>_find_sonarr_series\<close> and \<open>_find_radarr_movie\<close>. A cascade is taken as the
  function it is to the sync executor: from the media item and the webhook context
  attached to it, to the requests it sends and either the entity it found, \<open>None\<close>, or the
  exception that ended it.
\<close>

record services =
  sv_sonarr :: sonarr
  sv_radarr :: radarr
  sv_jellyfin_item :: "string \<Rightarrow> string \<Rightarrow> jellyfin_item reply"
  sv_ignore_special_episodes :: bool
  sv_find_sonarr_series :: "media_item \<Rightarrow> webhook_data option \<Rightarrow> series option io"
  sv_find_radarr_movie :: "media_item \<Rightarrow> webhook_data option \<Rightarrow> movie option io"

text \<open>\<open>_normalize_media_type\<close>: any other type name is read as an episode.\<close>

definition normalize_media_type :: "string \<Rightarrow> string" where
  "normalize_media_type jellyfin_type =
     (if jellyfin_type = ''Episode'' \<or> jellyfin_type = ''episode'' then EPISODE
      else if jellyfin_type = ''Movie'' \<or> jellyfin_type = ''movie'' then MOVIE
      else if jellyfin_type = ''Series'' \<or> jellyfin_type = ''series'' then SERIES
      else if jellyfin_type = ''Season'' \<or> jellyfin_type = ''season'' then SEASON
      else EPISODE)"

text \<open>
  \<open>_get_or_create_media_item_from_jellyfin\<close>: an existing row gets the new metadata and
  keeps its watched flag; a new row starts unwatched.
\<close>

definition get_or_create_media_item_from_jellyfin ::
  "store \<Rightarrow> media_info \<Rightarrow> store \<times> media_item option" where
  "get_or_create_media_item_from_jellyfin st media_info =
     (case info_jellyfin_id media_info of
        None \<Rightarrow> (st, None)
      | Some jellyfin_id \<Rightarrow>
          if jellyfin_id = [] then (st, None)
          else
            (case first_match (\<lambda>m. mi_jellyfin_id m = jellyfin_id) (media_items st) of
               Some existing \<Rightarrow>
                 let media_item = existing\<lparr>mi_title := info_title media_info,
                       mi_parent_id := info_parent_id media_info,
                       mi_series_name := info_series_name media_info,
                       mi_season_number := info_season_number media_info,
                       mi_episode_number := info_episode_number media_info\<rparr>
                 in (st\<lparr>media_items :=
                          update_where (\<lambda>m. mi_id m = mi_id existing) (\<lambda>_. media_item)
                            (media_items st)\<rparr>,
                     Some media_item)
             | None \<Rightarrow>
                 let media_item = \<lparr>mi_id = fresh_id (map mi_id (media_items st)),
                       mi_jellyfin_id = jellyfin_id, mi_title = info_title media_info,
                       mi_media_type = info_media_type media_info, mi_is_watched = False,
                       mi_parent_id = info_parent_id media_info,
                       mi_series_name = info_series_name media_info,
                       mi_season_number = info_season_number media_info,
                       mi_episode_number = info_episode_number media_info\<rparr>
                 in (st\<lparr>media_items := media_items st @ [media_item]\<rparr>, Some media_item)))"

text \<open>
  The row a retry reuses: under \<open>if is_retry and original_log_id\<close>, the row with that id
  if there is one.
\<close>

definition retried_log :: "store \<Rightarrow> bool \<Rightarrow> nat option \<Rightarrow> sync_log option" where
  "retried_log st is_retry original_log_id =
     (case original_log_id of
        None \<Rightarrow> None
      | Some lid \<Rightarrow>
          if is_retry \<and> lid \<noteq> 0
          then first_match (\<lambda>l. log_id l = lid) (sync_logs st) else None)"

text \<open>The row \<open>_update_sync_log\<close> adds when it reuses none: a new id, status processing.\<close>

definition new_sync_log :: "store \<Rightarrow> media_item \<Rightarrow> bool \<Rightarrow> string \<Rightarrow> sync_log" where
  "new_sync_log st media_item should_monitor service =
     \<lparr>log_id = fresh_id (map log_id (sync_logs st)),
      log_media_item_id = mi_id media_item,
      log_series_name = (case mi_series_name media_item of
                           None \<Rightarrow> mi_title media_item
                         | Some n \<Rightarrow> if n = [] then mi_title media_item else n),
      log_action = (if should_monitor then MONITOR else UNMONITOR),
      log_status = PROCESSING, log_service = service,
      log_external_id = None, log_error_message = None\<rparr>"

text \<open>
  \<open>_update_sync_log\<close>: in retry mode with a truthy \<open>original_log_id\<close> whose row exists, that
  row is set to processing and reused; otherwise a new row is added in status
  processing. The result is the store, the id of the row and the events.
\<close>

definition update_sync_log ::
  "store \<Rightarrow> media_item \<Rightarrow> bool \<Rightarrow> string \<Rightarrow> bool \<Rightarrow> nat option \<Rightarrow> store \<times> nat \<times> event list" where
  "update_sync_log st media_item should_monitor service is_retry original_log_id =
     (case retried_log st is_retry original_log_id of
        Some sync_log \<Rightarrow>
          (case write_status st (log_id sync_log) PROCESSING
                  (\<lambda>l. l\<lparr>log_error_message := None\<rparr>) of
             (st', es) \<Rightarrow> (st', log_id sync_log, es))
      | None \<Rightarrow>
          let sync_log = new_sync_log st media_item should_monitor service
          in (st\<lparr>sync_logs := sync_logs st @ [sync_log]\<rparr>, log_id sync_log, []))"

section \<open>The sync executor (\<open>_sync_with_service\<close>)\<close>

text \<open>
  The mapping of a media item on Sonarr: the stored row, or a new one from the series the
  cascade finds, with the episode id and the season number filled in for an episode that
  Sonarr knows. The result is \<open>None\<close> when no series is found; an exception of the
  cascade or of \<open>search_episode\<close> ends the sync before the row is added.
\<close>

definition sonarr_mapping_for ::
  "services \<Rightarrow> store \<Rightarrow> media_item \<Rightarrow> webhook_data option
     \<Rightarrow> (store \<times> sonarr_mapping) option io" where
  "sonarr_mapping_for sv st media_item webhook_context =
     (case first_match (\<lambda>m. sm_media_item_id m = mi_id media_item) (sonarr_mappings st) of
        Some mapping \<Rightarrow> io_return (Some (st, mapping))
      | None \<Rightarrow>
          io_bind (sv_find_sonarr_series sv media_item webhook_context) (\<lambda>series.
            case series of
              None \<Rightarrow> io_return None
            | Some series \<Rightarrow>
                let mapping = \<lparr>sm_media_item_id = mi_id media_item,
                      sonarr_series_id = series_resource_id series,
                      sonarr_episode_id = None, sonarr_season_number = None,
                      sm_is_monitored = True\<rparr>
                in io_bind
                     (if mi_media_type media_item = EPISODE
                      then io_bind (search_episode (sv_sonarr sv) (series_resource_id series)
                                      (mi_season_number media_item) (mi_episode_number media_item))
                             (\<lambda>episode. io_return
                                (case episode of
                                   None \<Rightarrow> mapping
                                 | Some ep \<Rightarrow>
                                     mapping\<lparr>sonarr_episode_id := Some (episode_resource_id ep),
                                       sonarr_season_number := mi_season_number media_item\<rparr>))
                      else io_return mapping)
                     (\<lambda>mapping. io_return
                        (Some (st\<lparr>sonarr_mappings := sonarr_mappings st @ [mapping]\<rparr>,
                               mapping)))))"

definition radarr_mapping_for ::
  "services \<Rightarrow> store \<Rightarrow> media_item \<Rightarrow> webhook_data option
     \<Rightarrow> (store \<times> radarr_mapping) option io" where
  "radarr_mapping_for sv st media_item webhook_context =
     (case first_match (\<lambda>m. rm_media_item_id m = mi_id media_item) (radarr_mappings st) of
        Some mapping \<Rightarrow> io_return (Some (st, mapping))
      | None \<Rightarrow>
          io_bind (sv_find_radarr_movie sv media_item webhook_context) (\<lambda>movie.
            case movie of
              None \<Rightarrow> io_return None
            | Some movie \<Rightarrow>
                let mapping = \<lparr>rm_media_item_id = mi_id media_item,
                      radarr_movie_id = movie_resource_id movie, rm_is_monitored = True\<rparr>
                in io_return
                     (Some (st\<lparr>radarr_mappings := radarr_mappings st @ [mapping]\<rparr>,
                            mapping))))"

text \<open>
  The call the executor makes on Sonarr for a mapping: by episode when the item is an
  episode with a truthy episode id, by season, by series, or none at all (\<open>success\<close>
  stays \<open>False\<close>). The season update gets the season number of the mapping row.
\<close>

definition sonarr_dispatch :: "services \<Rightarrow> media_item \<Rightarrow> sonarr_mapping \<Rightarrow> bool \<Rightarrow> bool io" where
  "sonarr_dispatch sv media_item mapping should_monitor =
     (if mi_media_type media_item = EPISODE \<and> truthy_int (sonarr_episode_id mapping)
      then (case sonarr_episode_id mapping of
              Some episode_id \<Rightarrow>
                update_episode_monitoring (sv_sonarr sv) (sv_ignore_special_episodes sv)
                  episode_id should_monitor
            | None \<Rightarrow> io_return False)
      else if mi_media_type media_item = SEASON
      then update_season_monitoring (sv_sonarr sv) (sv_ignore_special_episodes sv)
             (sonarr_series_id mapping) (sonarr_season_number mapping) should_monitor
      else if mi_media_type media_item = SERIES
      then update_series_monitoring (sv_sonarr sv) (sonarr_series_id mapping) should_monitor
      else io_return False)"

text \<open>
  The end of a sync: the outcome goes to the audit row (completed or failed, the external
  id, the error message of a failure) and the monitored flag to the mapping row. When the
  update raised instead, the handler of \<open>_sync_with_service\<close> marks the row failed.
\<close>

text \<open>\<open>str(e)\<close> on an exception; the model keeps the name of its class.\<close>

definition str_of_exn :: "exn \<Rightarrow> string" where
  "str_of_exn e = (case e of RequestError \<Rightarrow> ''RequestError'' | IndexError \<Rightarrow> ''IndexError'')"

definition record_outcome ::
  "store \<Rightarrow> nat \<Rightarrow> string \<Rightarrow> exn + bool \<Rightarrow> store \<times> event list" where
  "record_outcome st lid external_id outcome =
     (case outcome of
        Inr success \<Rightarrow>
          write_status st lid (if success then COMPLETED else FAILED)
            (\<lambda>l. l\<lparr>log_external_id := Some external_id,
                   log_error_message :=
                     (if success then log_error_message l
                      else Some ''Failed to update monitoring status'')\<rparr>)
      | Inl e \<Rightarrow>
          write_status st lid FAILED (\<lambda>l. l\<lparr>log_error_message := Some (str_of_exn e)\<rparr>))"

definition sync_with_sonarr ::
  "services \<Rightarrow> store \<Rightarrow> media_item \<Rightarrow> webhook_data option \<Rightarrow> bool \<Rightarrow> bool \<Rightarrow> nat option
     \<Rightarrow> store \<times> event list" where
  "sync_with_sonarr sv st media_item webhook_context should_monitor is_retry original_log_id =
     (case sonarr_mapping_for sv st media_item webhook_context of
        (es, Inl e) \<Rightarrow> (st, Select_sonarr_mapping (mi_id media_item) # map Remote es)
      | (es, Inr None) \<Rightarrow> (st, Select_sonarr_mapping (mi_id media_item) # map Remote es)
      | (es, Inr (Some (st1, mapping))) \<Rightarrow>
          (case update_sync_log st1 media_item should_monitor ''sonarr'' is_retry
                  original_log_id of
             (st2, lid, es2) \<Rightarrow>
               (case sonarr_dispatch sv media_item mapping should_monitor of
                  (es3, outcome) \<Rightarrow>
                    (case record_outcome st2 lid (str_of_int (sonarr_series_id mapping))
                            outcome of
                       (st3, es4) \<Rightarrow>
                         ((case outcome of
                             Inl e \<Rightarrow> st3
                           | Inr success \<Rightarrow>
                               st3\<lparr>sonarr_mappings :=
                                     update_where
                                       (\<lambda>m. sm_media_item_id m = mi_id media_item)
                                       (\<lambda>m. m\<lparr>sm_is_monitored := should_monitor\<rparr>)
                                       (sonarr_mappings st3)\<rparr>),
                          Select_sonarr_mapping (mi_id media_item)
                            # map Remote es @ es2 @ map Remote es3 @ es4)))))"

definition sync_with_radarr ::
  "services \<Rightarrow> store \<Rightarrow> media_item \<Rightarrow> webhook_data option \<Rightarrow> bool \<Rightarrow> bool \<Rightarrow> nat option
     \<Rightarrow> store \<times> event list" where
  "sync_with_radarr sv st media_item webhook_context should_monitor is_retry original_log_id =
     (case radarr_mapping_for sv st media_item webhook_context of
        (es, Inl e) \<Rightarrow> (st, Select_radarr_mapping (mi_id media_item) # map Remote es)
      | (es, Inr None) \<Rightarrow> (st, Select_radarr_mapping (mi_id media_item) # map Remote es)
      | (es, Inr (Some (st1, mapping))) \<Rightarrow>
          (case update_sync_log st1 media_item should_monitor ''radarr'' is_retry
                  original_log_id of
             (st2, lid, es2) \<Rightarrow>
               (case update_movie_monitoring (sv_radarr sv) (radarr_movie_id mapping)
                       should_monitor of
                  (es3, outcome) \<Rightarrow>
                    (case record_outcome st2 lid (str_of_int (radarr_movie_id mapping))
                            outcome of
                       (st3, es4) \<Rightarrow>
                         ((case outcome of
                             Inl e \<Rightarrow> st3
                           | Inr success \<Rightarrow>
                               st3\<lparr>radarr_mappings :=
                                     update_where
                                       (\<lambda>m. rm_media_item_id m = mi_id media_item)
                                       (\<lambda>m. m\<lparr>rm_is_monitored := should_monitor\<rparr>)
                                       (radarr_mappings st3)\<rparr>),
                          Select_radarr_mapping (mi_id media_item)
                            # map Remote es @ es2 @ map Remote es3 @ es4)))))"

text \<open>
  \<open>_sync_with_service\<close>. It never raises: its handler catches what the cascade or a client
  lets through. \<open>force\<close> is only logged.
\<close>

definition sync_with_service ::
  "services \<Rightarrow> store \<Rightarrow> media_item \<Rightarrow> webhook_data option \<Rightarrow> bool \<Rightarrow> bool \<Rightarrow> bool
     \<Rightarrow> nat option \<Rightarrow> store \<times> event list" where
  "sync_with_service sv st media_item webhook_context should_monitor force is_retry
       original_log_id =
     (if mi_media_type media_item \<in> {EPISODE, SERIES, SEASON}
      then sync_with_sonarr sv st media_item webhook_context should_monitor is_retry
             original_log_id
      else sync_with_radarr sv st media_item webhook_context should_monitor is_retry
             original_log_id)"

section \<open>The per-event pipeline (\<open>_process_watched_status_change\<close>)\<close>

text \<open>The \<open>media_info\<close> built from a webhook that carries the watched flag itself.\<close>

definition media_info_of_webhook :: "webhook_data \<Rightarrow> bool \<Rightarrow> media_info" where
  "media_info_of_webhook webhook_data is_watched =
     \<lparr>info_jellyfin_id = Some (wd_jellyfin_id webhook_data),
      info_title = (case wd_item_name webhook_data of None \<Rightarrow> ''Unknown'' | Some n \<Rightarrow> n),
      info_media_type =
        normalize_media_type
          (case wd_item_type webhook_data of None \<Rightarrow> ''Unknown'' | Some t \<Rightarrow> t),
      info_is_watched = Some is_watched,
      info_parent_id = wd_series_id webhook_data,
      info_series_name = wd_series_name webhook_data,
      info_season_number = wd_season_number webhook_data,
      info_episode_number = wd_episode_number webhook_data\<rparr>"

text \<open>
  The watched flag and the media info of an event: from the webhook when it has the key
  \<open>is_watched\<close>, from Jellyfin otherwise. \<open>None\<close> when Jellyfin has no such item.
\<close>

definition watched_status_of ::
  "services \<Rightarrow> webhook_data \<Rightarrow> (bool \<times> media_info) option io" where
  "watched_status_of sv webhook_data =
     (case wd_is_watched webhook_data of
        Some is_watched \<Rightarrow>
          io_return (Some (is_watched, media_info_of_webhook webhook_data is_watched))
      | None \<Rightarrow>
          io_bind (make_request (Jellyfin_GET_item (wd_jellyfin_id webhook_data))
                     (sv_jellyfin_item sv (wd_jellyfin_id webhook_data)
                        (wd_user_id webhook_data)))
            (\<lambda>item_data. io_return
               (case item_data of
                  None \<Rightarrow> None
                | Some item \<Rightarrow>
                    let media_info = extract_media_info item
                    in Some ((case info_is_watched media_info of None \<Rightarrow> False | Some w \<Rightarrow> w),
                             media_info))))"

text \<open>
  \<open>_process_watched_status_change\<close>. Every exception is caught, so the result is the store
  and the events. The session commits when the block is left, so the metadata written by
  \<open>_get_or_create_media_item_from_jellyfin\<close> stays also when the sync is skipped.
\<close>

definition process_watched_status_change ::
  "services \<Rightarrow> store \<Rightarrow> webhook_data \<Rightarrow> bool \<Rightarrow> bool \<Rightarrow> nat option \<Rightarrow> store \<times> event list" where
  "process_watched_status_change sv st webhook_data force_sync is_retry original_log_id =
     (case watched_status_of sv webhook_data of
        (es, Inl e) \<Rightarrow> (st, map Remote es)
      | (es, Inr None) \<Rightarrow> (st, map Remote es)
      | (es, Inr (Some (is_watched, media_info))) \<Rightarrow>
          (case get_or_create_media_item_from_jellyfin st media_info of
             (st1, None) \<Rightarrow> (st1, map Remote es)
           | (st1, Some media_item) \<Rightarrow>
               let old_status = mi_is_watched media_item
               in if old_status = is_watched \<and> \<not> force_sync then (st1, map Remote es)
                  else
                    let st2 = st1\<lparr>media_items :=
                                   update_where (\<lambda>m. mi_id m = mi_id media_item)
                                     (\<lambda>m. m\<lparr>mi_is_watched := is_watched\<rparr>) (media_items st1)\<rparr>;
                        media_item = media_item\<lparr>mi_is_watched := is_watched\<rparr>;
                        should_monitor = \<not> is_watched
                    in (case sync_with_service sv st2 media_item
                               (if wd_is_watched webhook_data \<noteq> None then Some webhook_data
                                else None)
                               should_monitor force_sync is_retry original_log_id of
                          (st3, es') \<Rightarrow> (st3, map Remote es @ es'))))"

section \<open>Retry requests (\<open>main.py\<close>)\<close>

text \<open>
  The event a retry hands to the webhook handler, which runs it later with
  \<open>force_sync=True\<close>, \<open>retry_mode\<close> set and \<open>original_log_id\<close> the id of the audit row.
\<close>

definition retry_webhook_data :: "string \<Rightarrow> media_item \<Rightarrow> webhook_data" where
  "retry_webhook_data user media_item =
     \<lparr>wd_jellyfin_id = mi_jellyfin_id media_item, wd_user_id = user,
      wd_is_watched = Some (mi_is_watched media_item),
      wd_item_name = Some (mi_title media_item),
      wd_item_type = Some (mi_media_type media_item),
      wd_series_id = None, wd_series_name = mi_series_name media_item,
      wd_season_number = mi_season_number media_item,
      wd_episode_number = mi_episode_number media_item,
      wd_year = None, wd_tvdb_id = None, wd_imdb_id = None, wd_tmdb_id = None\<rparr>"

text \<open>
  \<open>retry_sync_action\<close> (POST \<open>/api/logs/{log_id}/retry\<close>): the status code of the
  response, the store, the events, and the task it queued, if any. Raising the 400 for a
  missing media item inside the \<open>try\<close> block lands in its own handler, which marks the row
  failed, with the message \<open>f"Retry failed: {str(e)}"\<close>, and answers 500.
\<close>

definition retry_sync_action ::
  "store \<Rightarrow> nat \<Rightarrow> bool \<Rightarrow> nat \<times> store \<times> event list \<times> (webhook_data \<times> nat) option" where
  "retry_sync_action st lid force =
     (case first_match (\<lambda>l. log_id l = lid) (sync_logs st) of
        None \<Rightarrow> (404, st, [], None)
      | Some log \<Rightarrow>
          let media_item = first_match (\<lambda>m. mi_id m = log_media_item_id log) (media_items st)
          in if log_status log = COMPLETED \<and> \<not> force then (400, st, [], None)
             else if log_status log = PROCESSING then (409, st, [], None)
             else
               (case media_item of
                  None \<Rightarrow>
                    (case write_status st lid FAILED
                            (\<lambda>l. l\<lparr>log_error_message := Some
                               ''Retry failed: 400: Cannot retry sync: Media item not found in database''\<rparr>)
                          of
                       (st', es) \<Rightarrow> (500, st', es, None))
                | Some media_item \<Rightarrow>
                    (case write_status st lid PROCESSING
                            (\<lambda>l. l\<lparr>log_error_message := None\<rparr>) of
                       (st', es) \<Rightarrow>
                         (200, st', es,
                          Some (retry_webhook_data ''retry_user'' media_item, lid)))))"

text \<open>
  \<open>retry_failed_syncs\<close> (POST \<open>/api/logs/retry/bulk\<close>): every selected failed row that has
  its media item is set to processing and queued. \<open>recent\<close> stands for the test on
  \<open>created_at\<close>, a column the model leaves out.
\<close>

fun retry_each :: "store \<Rightarrow> sync_log list \<Rightarrow> store \<times> event list \<times> (webhook_data \<times> nat) list" where
  "retry_each st [] = (st, [], [])"
| "retry_each st (log # rest) =
     (case first_match (\<lambda>m. mi_id m = log_media_item_id log) (media_items st) of
        None \<Rightarrow> retry_each st rest
      | Some media_item \<Rightarrow>
          (case write_status st (log_id log) PROCESSING (\<lambda>l. l\<lparr>log_error_message := None\<rparr>) of
             (st', es) \<Rightarrow>
               (case retry_each st' rest of
                  (st'', es', tasks) \<Rightarrow>
                    (st'', es @ es',
                     (retry_webhook_data ''bulk_retry_user'' media_item, log_id log) # tasks))))"

definition retry_failed_syncs ::
  "store \<Rightarrow> nat \<Rightarrow> (sync_log \<Rightarrow> bool) \<Rightarrow> store \<times> event list \<times> (webhook_data \<times> nat) list" where
  "retry_failed_syncs st limit recent =
     retry_each st
       (take limit (filter (\<lambda>l. log_status l = FAILED \<and> recent l) (sync_logs st)))"

section \<open>Webhook payloads\<close>

text \<open>
  A parsed JSON payload. A JSON object is the dictionary Python makes of it, as the list of
  its items, one per key. Numbers are the integers; a payload with a fractional number is
  outside the model.
\<close>

datatype json =
    JNull
  | JBool bool
  | JNum int
  | JStr string
  | JArr "json list"
  | JObj "(string \<times> json) list"







section \<open>Event normalisation and the dedup cache (\<open>process_webhook\<close>)\<close>







text \<open>
  How \<open>process_webhook\<close> ends: the payload is no watched-status event, an exception was
  caught and logged, the event was dropped as a duplicate, the pipeline returned, or the
  task was cancelled inside the pipeline.
\<close>

datatype outcome = Ignored | Logged_error | Dropped | Processed | Cancelled





section \<open>The webhook endpoint (\<open>main.py\<close>)\<close>

text \<open>
  The request as the endpoint reads it: two headers, the raw body, and what the two
  parsers make of the body. \<open>req_json\<close> is the result of \<open>request.json()\<close>, \<open>req_loads\<close>
  that of \<open>json.loads(raw_body.decode('utf-8'))\<close>.
\<close>

datatype parsed = JSONDecodeError | UnicodeDecodeError | Parsed json

record request =
  req_authorization :: "string option"
  req_content_type :: "string option"
  req_body :: string
  req_json :: parsed
  req_loads :: parsed

text \<open>
  The response: its status code and the \<open>status\<close> and \<open>message\<close> of its body (for an
  \<open>HTTPException\<close>, \<open>error\<close> and its detail). A handler that returns a dictionary is
  answered with the default status code of the route, which is 200.
\<close>

record response =
  status_code :: nat
  body_status :: string
  body_message :: string

definition returned :: "string \<Rightarrow> string \<Rightarrow> response" where
  "returned s m = \<lparr>status_code = 200, body_status = s, body_message = m\<rparr>"

definition http_exception :: "nat \<Rightarrow> string \<Rightarrow> response" where
  "http_exception code detail = \<lparr>status_code = code, body_status = ''error'', body_message = detail\<rparr>"

text \<open>
  \<open>isinstance(payload, dict) and all(v == "" for v in payload.values() if isinstance(v,
  str))\<close>
\<close>

definition empty_template :: "json \<Rightarrow> bool" where
  "empty_template payload =
     (case payload of
        JObj d \<Rightarrow> list_all (\<lambda>v. case v of JStr s \<Rightarrow> s = [] | _ \<Rightarrow> True) (map snd d)
      | _ \<Rightarrow> False)"

text \<open>
  \<open>request.headers.get("content-type", "").lower()\<close>
\<close>

definition content_type_of :: "request \<Rightarrow> string" where
  "content_type_of request =
     py_lower (case req_content_type request of None \<Rightarrow> [] | Some c \<Rightarrow> c)"

text \<open>
  The parsing step of the endpoint: the payload, or the status code of the exception.
  \<open>import json\<close> stands in the branch for the other content types, after the decoding
  of the body, so \<open>json\<close> is a local name of the handler that is bound only once that
  statement has run. When \<open>request.json()\<close> raises in the \<open>application/json\<close> branch, or
  when \<open>raw_body.decode('utf-8')\<close> raises in the other branch, evaluating
  \<open>json.JSONDecodeError\<close> in the \<open>except\<close> clause raises \<open>UnboundLocalError\<close>, which the
  outer handler turns into a 500. Only a \<open>JSONDecodeError\<close> of \<open>json.loads\<close> in the other
  branch reaches the 422.
\<close>

definition parse_body :: "request \<Rightarrow> string \<Rightarrow> nat + json" where
  "parse_body request content_type =
     (if py_in ''application/json'' content_type
      then (case req_json request of Parsed payload \<Rightarrow> Inr payload | _ \<Rightarrow> Inl 500)
      else (case req_loads request of
              Parsed payload \<Rightarrow> Inr payload
            | JSONDecodeError \<Rightarrow> Inl 422
            | UnicodeDecodeError \<Rightarrow> Inl 500))"

text \<open>
  The token check: under \<open>if app_config.webhook_token\<close>, the request is refused when
  \<open>not auth_header or auth_header != f"Bearer {app_config.webhook_token}"\<close>.
\<close>

definition invalid_token :: "string option \<Rightarrow> request \<Rightarrow> bool" where
  "invalid_token webhook_token request =
     (case webhook_token of
        None \<Rightarrow> False
      | Some token \<Rightarrow>
          token \<noteq> []
          \<and> (let auth_header = req_authorization request
             in (if truthy_str auth_header then auth_header \<noteq> Some (''Bearer '' @ token)
                 else True)))"

text \<open>
  \<open>jellyfin_webhook\<close> (POST \<open>/webhook/jellyfin\<close>): the response, and the payload handed to
  the background task when one is queued.
\<close>

definition jellyfin_webhook :: "string option \<Rightarrow> request \<Rightarrow> response \<times> json option" where
  "jellyfin_webhook webhook_token request =
     (if invalid_token webhook_token request
      then (http_exception 401 ''Invalid webhook token'', None)
      else
        let content_type = content_type_of request
        in if req_body request = []
           then (returned ''accepted''
                   ''Empty webhook body received - check Jellyfin configuration'', None)
           else
             (case parse_body request content_type of
                Inl code \<Rightarrow>
                  (http_exception code
                     (if code = 422 then ''Invalid JSON payload'' else ''Internal server error''),
                   None)
              | Inr payload \<Rightarrow>
                  if empty_template payload
                  then (returned ''accepted''
                          ''Empty template data - check Jellyfin webhook configuration'', None)
                  else (returned ''accepted'' ''Webhook received and queued for processing'',
                        Some payload)))"

section \<open>Example instances\<close>

text \<open>
  A Sonarr library of two series, and a Radarr library of two movies listed with the
  IMDB-matched one first. No other request of theirs is answered.
\<close>

definition series_foo :: series where
  "series_foo = \<lparr>series_resource_id = 1, series_title = ''Foo'', series_year = Some 2001,
     series_tvdbId = Some 123, series_imdbId = None, series_alternateTitles = []\<rparr>"

definition series_bar :: series where
  "series_bar = \<lparr>series_resource_id = 2, series_title = ''The Bar'', series_year = Some 2010,
     series_tvdbId = Some 7, series_imdbId = Some ''tt7'', series_alternateTitles = []\<rparr>"

definition sonarr_two :: sonarr where
  "sonarr_two = \<lparr>sn_series = Content [series_foo, series_bar],
     sn_series_lookup = (\<lambda>_. Raises), sn_series_id = (\<lambda>_. Raises),
     sn_put_series_id = (\<lambda>_ _. Raises), sn_episode_list = (\<lambda>_. Raises),
     sn_episode_id = (\<lambda>_. Raises), sn_put_episode_id = (\<lambda>_ _. Raises),
     sn_put_episode_monitor = (\<lambda>_ _. Raises)\<rparr>"

definition movie_alpha :: movie where
  "movie_alpha = \<lparr>movie_resource_id = 1, movie_title = ''Alpha'', movie_originalTitle = [],
     movie_alternativeTitles = [], movie_year = Some 2001, movie_tmdbId = Some 10,
     movie_imdbId = Some ''tt1''\<rparr>"

definition movie_beta :: movie where
  "movie_beta = \<lparr>movie_resource_id = 2, movie_title = ''Beta'', movie_originalTitle = [],
     movie_alternativeTitles = [], movie_year = Some 2001, movie_tmdbId = Some 20,
     movie_imdbId = Some ''tt2''\<rparr>"

definition radarr_two :: radarr where
  "radarr_two = \<lparr>rd_movie = Content [movie_beta, movie_alpha],
     rd_movie_lookup = (\<lambda>_. Raises), rd_movie_id = (\<lambda>_. Raises),
     rd_put_movie_id = (\<lambda>_ _. Raises)\<rparr>"

text \<open>
  A Sonarr whose episode 5 is a special (season 0), the collaborators around it with the
  specials ignored, and a store with one watched episode mapped to that episode and one
  completed audit row.
\<close>

definition episode_special :: episode where
  "episode_special = \<lparr>episode_resource_id = 5, episode_seasonNumber = Some 0,
     episode_episodeNumber = Some 1\<rparr>"

definition sonarr_specials :: sonarr where
  "sonarr_specials = sonarr_two\<lparr>sn_episode_id :=
     (\<lambda>i. if i = 5 then Content episode_special else No_content)\<rparr>"

definition services_specials :: services where
  "services_specials = \<lparr>sv_sonarr = sonarr_specials, sv_radarr = radarr_two,
     sv_jellyfin_item = (\<lambda>_ _. Raises), sv_ignore_special_episodes = True,
     sv_find_sonarr_series = (\<lambda>_ _. ([], Inr None)),
     sv_find_radarr_movie = (\<lambda>_ _. ([], Inr None))\<rparr>"

definition item_special :: media_item where
  "item_special = \<lparr>mi_id = 1, mi_jellyfin_id = ''jf-1'', mi_title = ''Pilot Extra'',
     mi_media_type = EPISODE, mi_is_watched = True, mi_parent_id = None,
     mi_series_name = Some ''Foo'', mi_season_number = Some 0, mi_episode_number = Some 1\<rparr>"

definition mapping_special :: sonarr_mapping where
  "mapping_special = \<lparr>sm_media_item_id = 1, sonarr_series_id = 1,
     sonarr_episode_id = Some 5, sonarr_season_number = Some 0, sm_is_monitored = True\<rparr>"

definition store_one :: store where
  "store_one = \<lparr>media_items = [item_special], sonarr_mappings = [mapping_special],
     radarr_mappings = [],
     sync_logs = [\<lparr>log_id = 1, log_media_item_id = 1, log_series_name = ''Foo'',
        log_action = UNMONITOR, log_status = COMPLETED, log_service = ''sonarr'',
        log_external_id = Some ''1'', log_error_message = None\<rparr>]\<rparr>"

text \<open>
  The same on a first sync: a store with no mapping row yet, a Sonarr that lists the
  special among the episodes of series 1, a series search by the series name of the item,
  and the season item of the specials.
\<close>

definition sonarr_first :: sonarr where
  "sonarr_first = sonarr_specials\<lparr>sn_episode_list :=
     (\<lambda>i. if i = 1 then Content [episode_special] else No_content)\<rparr>"

definition services_first :: services where
  "services_first = services_specials\<lparr>sv_sonarr := sonarr_first,
     sv_find_sonarr_series := (\<lambda>media_item webhook_context.
        find_series_by_jellyfin_metadata sonarr_first
          (case mi_series_name media_item of None \<Rightarrow> mi_title media_item | Some n \<Rightarrow> n)
          None None None)\<rparr>"

definition store_first :: store where
  "store_first = store_one\<lparr>sonarr_mappings := []\<rparr>"

definition season_special :: media_item where
  "season_special = \<lparr>mi_id = 2, mi_jellyfin_id = ''jf-2'', mi_title = ''Specials'',
     mi_media_type = SEASON, mi_is_watched = True, mi_parent_id = None,
     mi_series_name = Some ''Foo'', mi_season_number = Some 0, mi_episode_number = None\<rparr>"

definition event_watched :: webhook_data where
  "event_watched = \<lparr>wd_jellyfin_id = ''jf-1'', wd_user_id = ''u-1'',
     wd_is_watched = Some True, wd_item_name = Some ''Pilot Extra'',
     wd_item_type = Some ''Episode'', wd_series_id = None, wd_series_name = Some ''Foo'',
     wd_season_number = Some 0, wd_episode_number = Some 1, wd_year = None,
     wd_tvdb_id = None, wd_imdb_id = None, wd_tmdb_id = None\<rparr>"

text \<open>
  A ``Send All'' payload of Jellyfin for an episode marked as played, the request that
  carries it with a bearer token, and the same body sent as \<open>text/plain\<close> where it does
  not parse.
\<close>

definition payload_played :: json where
  "payload_played = JObj [(''NotificationType'', JStr ''UserDataSaved''),
     (''ItemId'', JStr ''jf-1''), (''UserId'', JStr ''u-1''), (''Name'', JStr ''Pilot Extra''),
     (''ItemType'', JStr ''Episode''), (''Played'', JBool True),
     (''SaveReason'', JStr ''TogglePlayed'')]"


definition request_played :: request where
  "request_played = \<lparr>req_authorization = Some ''Bearer secret'',
     req_content_type = Some ''application/json'', req_body = ''{...}'',
     req_json = Parsed payload_played, req_loads = Parsed payload_played\<rparr>"

definition request_garbled :: request where
  "request_garbled = \<lparr>req_authorization = Some ''Bearer secret'',
     req_content_type = Some ''text/plain'', req_body = ''{'',
     req_json = JSONDecodeError, req_loads = JSONDecodeError\<rparr>"

definition request_garbled_json :: request where
  "request_garbled_json = \<lparr>req_authorization = Some ''Bearer secret'',
     req_content_type = Some ''Application/JSON; charset=utf-8'', req_body = ''{'',
     req_json = JSONDecodeError, req_loads = JSONDecodeError\<rparr>"

definition request_template :: request where
  "request_template = \<lparr>req_authorization = Some ''Bearer secret'',
     req_content_type = Some ''application/json'', req_body = ''{...}'',
     req_json = Parsed (JObj [(''ItemId'', JStr []), (''UserId'', JStr [])]),
     req_loads = Parsed (JObj [(''ItemId'', JStr []), (''UserId'', JStr [])])\<rparr>"



section \<open>Properties of title normalisation\<close>

lemma lower_char_idem: "lower_char (lower_char c) = lower_char c"
  unfolding lower_char_def Let_def by auto

lemma is_space_blank: "is_space_char CHR '' ''"
  by (simp add: is_space_char_def)

lemma lower_char_blank: "lower_char CHR '' '' = CHR '' ''"
  by (simp add: lower_char_def)

lemma split_ws_words:
  "v \<in> set (split_ws w s) \<Longrightarrow> \<forall>c\<in>set w. \<not> is_space_char c
     \<Longrightarrow> v \<noteq> [] \<and> set v \<subseteq> set w \<union> set s \<and> (\<forall>c\<in>set v. \<not> is_space_char c)"
proof (induction s arbitrary: w)
  case Nil
  then show ?case by (auto split: if_splits)
next
  case (Cons c cs)
  show ?case
  proof (cases "is_space_char c")
    case True
    with Cons.prems have "v = w \<and> w \<noteq> [] \<or> v \<in> set (split_ws [] cs)"
      by (auto split: if_splits)
    then show ?thesis
    proof
      assume "v = w \<and> w \<noteq> []"
      with Cons.prems(2) show ?thesis by auto
    next
      assume "v \<in> set (split_ws [] cs)"
      from Cons.IH [OF this] show ?thesis by auto
    qed
  next
    case False
    with Cons.prems have "v \<in> set (split_ws (w @ [c]) cs)" by simp
    moreover from False Cons.prems(2) have "\<forall>d\<in>set (w @ [c]). \<not> is_space_char d" by auto
    ultimately have
      "v \<noteq> [] \<and> set v \<subseteq> set (w @ [c]) \<union> set cs \<and> (\<forall>c\<in>set v. \<not> is_space_char c)"
      by (rule Cons.IH)
    then show ?thesis by auto
  qed
qed

lemma split_ws_nonspace_prefix:
  "\<forall>c\<in>set u. \<not> is_space_char c \<Longrightarrow> split_ws w (u @ s) = split_ws (w @ u) s"
  by (induction u arbitrary: w) auto

lemma split_join_words:
  "\<forall>v\<in>set ws. v \<noteq> [] \<and> (\<forall>c\<in>set v. \<not> is_space_char c)
     \<Longrightarrow> split_ws [] (py_join '' '' ws) = ws"
proof (induction "'' ''" ws rule: py_join.induct)
  case 1
  then show ?case by simp
next
  case (2 w)
  then have "split_ws [] (w @ []) = split_ws ([] @ w) []"
    by (intro split_ws_nonspace_prefix) simp
  with 2 show ?case by simp
next
  case (3 w v ws)
  then have w: "w \<noteq> []" "\<forall>c\<in>set w. \<not> is_space_char c" by auto
  have "split_ws [] (w @ '' '' @ py_join '' '' (v # ws))
          = split_ws ([] @ w) ('' '' @ py_join '' '' (v # ws))"
    using w(2) by (rule split_ws_nonspace_prefix)
  also have "\<dots> = w # split_ws [] (py_join '' '' (v # ws))"
    using w(1) is_space_blank by simp
  also have "split_ws [] (py_join '' '' (v # ws)) = v # ws"
    using 3 by simp
  finally show ?case by simp
qed

lemma set_py_join: "set (py_join sep ws) \<subseteq> set sep \<union> \<Union> (set ` set ws)"
  by (induction sep ws rule: py_join.induct) auto

lemma title_words_norm: "w \<in> set (title_words s) \<Longrightarrow> norm_word w"
proof -
  assume "w \<in> set (title_words s)"
  then have "w \<in> set (split_ws [] (strip_punct (py_lower s)))"
    by (simp add: title_words_def py_split_def)
  then have w: "w \<noteq> []" "set w \<subseteq> set (strip_punct (py_lower s))"
      "\<forall>c\<in>set w. \<not> is_space_char c"
    using split_ws_words [of w "[]" "strip_punct (py_lower s)"] by auto
  have "\<forall>c\<in>set (strip_punct (py_lower s)).
          (is_word_char c \<or> is_space_char c) \<and> lower_char c = c"
    by (auto simp: strip_punct_def py_lower_def lower_char_idem)
  with w show ?thesis unfolding norm_word_def by blast
qed

lemma joined_norm_chars:
  assumes "\<forall>v\<in>set ws. norm_word v" and "c \<in> set (py_join '' '' ws)"
  shows "c = CHR '' '' \<or> (is_word_char c \<and> lower_char c = c)"
proof -
  from assms(2) set_py_join [of "'' ''" ws]
  have "c \<in> set '' '' \<or> (\<exists>w\<in>set ws. c \<in> set w)" by blast
  then show ?thesis
  proof
    assume "c \<in> set '' ''"
    then show ?thesis by simp
  next
    assume "\<exists>w\<in>set ws. c \<in> set w"
    then obtain w where "w \<in> set ws" "c \<in> set w" by blast
    with assms(1) show ?thesis unfolding norm_word_def by blast
  qed
qed

lemma joined_norm_words:
  assumes "\<forall>v\<in>set ws. norm_word v"
  shows "py_lower (py_join '' '' ws) = py_join '' '' ws"
    and "strip_punct (py_join '' '' ws) = py_join '' '' ws"
    and "py_split (py_join '' '' ws) = ws"
proof -
  have low: "\<And>c. c \<in> set (py_join '' '' ws) \<Longrightarrow> lower_char c = c"
    using joined_norm_chars [OF assms] lower_char_blank by metis
  have keep: "\<And>c. c \<in> set (py_join '' '' ws) \<Longrightarrow> is_word_char c \<or> is_space_char c"
    using joined_norm_chars [OF assms] is_space_blank by metis
  show "py_lower (py_join '' '' ws) = py_join '' '' ws"
    unfolding py_lower_def by (rule map_idI) (rule low)
  show "strip_punct (py_join '' '' ws) = py_join '' '' ws"
    unfolding strip_punct_def by (rule filter_True) (use keep in blast)
  have "\<forall>v\<in>set ws. v \<noteq> [] \<and> (\<forall>c\<in>set v. \<not> is_space_char c)"
    using assms unfolding norm_word_def by blast
  then show "py_split (py_join '' '' ws) = ws"
    unfolding py_split_def by (rule split_join_words)
qed

text \<open>
  What \<open>_clean_title\<close> computes, in terms of the words of the title: the words that are not
  common words, joined by single blanks; all the words when every one of them is common.
\<close>

lemma clean_title_words:
  "clean_title s = py_join '' ''
     (if filter (\<lambda>w. w \<notin> set common_words) (title_words s) \<noteq> []
      then filter (\<lambda>w. w \<notin> set common_words) (title_words s) else title_words s)"
proof (cases "s = []")
  case True
  then show ?thesis
    by (simp add: clean_title_def title_words_def py_lower_def strip_punct_def py_split_def)
next
  case False
  have "py_split (py_join '' '' (title_words s)) = title_words s"
    using joined_norm_words(3) title_words_norm by blast
  then show ?thesis using False
    by (simp add: clean_title_def Let_def title_words_def)
qed

lemma clean_title_of_joined:
  assumes "\<forall>v\<in>set ws. norm_word v"
      and "filter (\<lambda>w. w \<notin> set common_words) ws = ws
             \<or> filter (\<lambda>w. w \<notin> set common_words) ws = []"
  shows "clean_title (py_join '' '' ws) = py_join '' '' ws"
proof -
  have "title_words (py_join '' '' ws) = ws"
    using joined_norm_words [OF assms(1)] by (simp add: title_words_def)
  then show ?thesis using assms(2) by (auto simp: clean_title_words)
qed

text \<open>
  C9. Title normalisation is idempotent: normalising an already normalised title gives the
  same string, for every input string.
\<close>

theorem clean_title_idempotent: "clean_title (clean_title s) = clean_title s"
proof -
  let ?W = "title_words s"
  let ?F = "filter (\<lambda>w. w \<notin> set common_words) ?W"
  have W: "\<forall>v\<in>set ?W. norm_word v" using title_words_norm by blast
  show ?thesis
  proof (cases "?F = []")
    case True
    then have "clean_title s = py_join '' '' ?W" by (simp add: clean_title_words)
    moreover have "clean_title (py_join '' '' ?W) = py_join '' '' ?W"
      using W True by (intro clean_title_of_joined) auto
    ultimately show ?thesis by simp
  next
    case False
    then have "clean_title s = py_join '' '' ?F" by (simp add: clean_title_words)
    moreover have "clean_title (py_join '' '' ?F) = py_join '' '' ?F"
      using W by (intro clean_title_of_joined) auto
    ultimately show ?thesis by simp
  qed
qed

text \<open>
  C8, as the code has it. The claim says that only leading articles are dropped and that an
  article in the interior of a title is kept. \<open>_clean_title\<close> filters the common words out
  of the whole word list: in ``Lord of the Rings'' the interior word ``the'' is dropped.
\<close>

theorem clean_title_interior_article_counterexample:
  "''the'' \<in> set (tl (title_words ''Lord of the Rings''))
     \<and> ''the'' \<notin> set (py_split (clean_title ''Lord of the Rings''))
     \<and> clean_title ''Lord of the Rings'' = ''lord of rings''"
  by code_simp

text \<open>
  C8, amended. Title normalisation lower-cases, strips punctuation, collapses whitespace
  and drops the words ``the'', ``a'' and ``an'' wherever they stand in the title, leading or
  interior; only when every word of the title is one of these three are all words kept.
\<close>

theorem clean_title_drops_every_article:
  "py_split (clean_title title) =
     (if \<exists>w\<in>set (title_words title). w \<notin> set common_words
      then filter (\<lambda>w. w \<notin> set common_words) (title_words title)
      else title_words title)"
proof -
  let ?F = "filter (\<lambda>w. w \<notin> set common_words) (title_words title)"
  have F: "?F \<noteq> [] \<longleftrightarrow> (\<exists>w\<in>set (title_words title). w \<notin> set common_words)"
    by (simp add: filter_empty_conv)
  have "\<forall>v\<in>set (if ?F \<noteq> [] then ?F else title_words title). norm_word v"
    using title_words_norm by auto
  then have "py_split (clean_title title) = (if ?F \<noteq> [] then ?F else title_words title)"
    unfolding clean_title_words by (rule joined_norm_words(3))
  then show ?thesis unfolding F .
qed

theorem clean_title_drops_every_article_witness:
  "(\<exists>w\<in>set (title_words ''Lord of the Rings''). w \<notin> set common_words)
     \<and> py_split (clean_title ''Lord of the Rings'') = [''lord'', ''of'', ''rings'']
     \<and> \<not> (\<exists>w\<in>set (title_words ''The A''). w \<notin> set common_words)
     \<and> py_split (clean_title ''The A'') = [''the'', ''a'']"
proof -
  have a: "title_words ''Lord of the Rings'' = [''lord'', ''of'', ''the'', ''rings'']"
    by code_simp
  have b: "title_words ''The A'' = [''the'', ''a'']"
    by code_simp
  show ?thesis
    using clean_title_drops_every_article [of "''Lord of the Rings''"]
      clean_title_drops_every_article [of "''The A''"]
    unfolding a b by (simp add: common_words_def)
qed

section \<open>Properties of the resolvers\<close>

lemma first_match_Some: "first_match p xs = Some x \<Longrightarrow> x \<in> set xs \<and> p x"
  by (induction xs) (auto split: if_splits)

lemma first_match_exists: "x \<in> set xs \<Longrightarrow> p x \<Longrightarrow> \<exists>y. first_match p xs = Some y"
  by (induction xs) auto

lemma movie_by_ids_Some:
  "movie_by_ids tmdb_id imdb_id ms = Some m \<Longrightarrow> m \<in> set ms \<and> movie_id_match tmdb_id imdb_id m"
  by (induction ms) (auto simp: movie_id_match_def split: if_splits)

lemma movie_by_ids_exists:
  "m \<in> set ms \<Longrightarrow> movie_id_match tmdb_id imdb_id m \<Longrightarrow> \<exists>m'. movie_by_ids tmdb_id imdb_id ms = Some m'"
  by (induction ms) (auto simp: movie_id_match_def)

lemma get_all_series_Content:
  "sn_series sn = Content xs \<Longrightarrow> get_all_series sn = ([Sonarr_GET_series], Inr xs)"
  by (simp add: get_all_series_def make_request_def io_bind_def io_return_def)

lemma get_all_movies_Content:
  "rd_movie rd = Content xs \<Longrightarrow> get_all_movies rd = ([Radarr_GET_movie], Inr xs)"
  by (simp add: get_all_movies_def make_request_def io_bind_def io_return_def)

lemma series_id_tier:
  assumes "s \<in> set xs" and "series_id_match tvdb_id imdb_id s"
  shows "\<exists>s'. (case series_by_tvdb tvdb_id xs of Some s \<Rightarrow> Some s
                 | None \<Rightarrow> series_by_imdb imdb_id xs) = Some s'
              \<and> s' \<in> set xs \<and> series_id_match tvdb_id imdb_id s'"
proof (cases "series_by_tvdb tvdb_id xs")
  case (Some s')
  then obtain t where t: "tvdb_id = Some t" "t \<noteq> []" "first_match (series_tvdb_match t) xs = Some s'"
    by (auto simp: series_by_tvdb_def split: option.splits if_splits)
  from first_match_Some [OF t(3)] t(1,2) have "s' \<in> set xs \<and> series_id_match tvdb_id imdb_id s'"
    by (simp add: series_id_match_def)
  with Some show ?thesis by simp
next
  case None
  have no_tvdb: "\<not> (case tvdb_id of None \<Rightarrow> False | Some t \<Rightarrow> t \<noteq> [] \<and> series_tvdb_match t s)"
  proof
    assume "case tvdb_id of None \<Rightarrow> False | Some t \<Rightarrow> t \<noteq> [] \<and> series_tvdb_match t s"
    then obtain t where t: "tvdb_id = Some t" "t \<noteq> []" "series_tvdb_match t s"
      by (auto split: option.splits)
    from first_match_exists [of s xs "series_tvdb_match t", OF assms(1) t(3)] t(1,2) None show False
      by (simp add: series_by_tvdb_def)
  qed
  with assms(2) obtain i where i: "imdb_id = Some i" "i \<noteq> []" "series_imdb_match i s"
    by (auto simp: series_id_match_def split: option.splits)
  from first_match_exists [of s xs "series_imdb_match i", OF assms(1) i(3)] obtain s' where
    s': "first_match (series_imdb_match i) xs = Some s'" by blast
  from first_match_Some [OF s'] i(1,2) have "s' \<in> set xs \<and> series_id_match tvdb_id imdb_id s'"
    by (simp add: series_id_match_def)
  with None s' i show ?thesis by (simp add: series_by_imdb_def)
qed

lemma series_id_match_truthy:
  "series_id_match tvdb_id imdb_id s \<Longrightarrow> truthy_str tvdb_id \<or> truthy_str imdb_id"
  by (auto simp: series_id_match_def truthy_str_def split: option.splits)

lemma movie_id_match_truthy:
  "movie_id_match tmdb_id imdb_id m \<Longrightarrow> truthy_str tmdb_id \<or> truthy_str imdb_id"
  by (auto simp: movie_id_match_def movie_tmdb_match_def movie_imdb_match_def Let_def)

lemma find_series_by_id:
  assumes "sn_series sn = Content xs" and "s \<in> set xs"
      and "series_id_match tvdb_id imdb_id s"
  shows "\<exists>s'\<in>set xs. series_id_match tvdb_id imdb_id s'
           \<and> (\<forall>title year. find_series_by_jellyfin_metadata sn title year tvdb_id imdb_id
                               = ([Sonarr_GET_series], Inr (Some s')))"
proof -
  from series_id_tier [OF assms(2,3)] obtain s' where
    s': "(case series_by_tvdb tvdb_id xs of Some s \<Rightarrow> Some s
           | None \<Rightarrow> series_by_imdb imdb_id xs) = Some s'"
      "s' \<in> set xs" "series_id_match tvdb_id imdb_id s'" by blast
  have "find_series_by_jellyfin_metadata sn title year tvdb_id imdb_id
          = ([Sonarr_GET_series], Inr (Some s'))" for title year
    unfolding find_series_by_jellyfin_metadata_def
    using series_id_match_truthy [OF assms(3)] get_all_series_Content [OF assms(1)] s'(1)
    by (simp add: io_bind_def io_return_def)
  with s'(2,3) show ?thesis by blast
qed

lemma find_movie_by_id:
  assumes "rd_movie rd = Content ms" and "m \<in> set ms"
      and "movie_id_match tmdb_id imdb_id m"
  shows "\<exists>m'\<in>set ms. movie_id_match tmdb_id imdb_id m'
           \<and> (\<forall>title year. find_movie_by_jellyfin_metadata rd title year tmdb_id imdb_id
                               = ([Radarr_GET_movie], Inr (Some m')))"
proof -
  from movie_by_ids_exists [OF assms(2,3)] obtain m' where
    m': "movie_by_ids tmdb_id imdb_id ms = Some m'" by blast
  have "find_movie_by_jellyfin_metadata rd title year tmdb_id imdb_id
          = ([Radarr_GET_movie], Inr (Some m'))" for title year
    unfolding find_movie_by_jellyfin_metadata_def
    using movie_id_match_truthy [OF assms(3)] get_all_movies_Content [OF assms(1)] m'
    by (simp add: io_bind_def io_return_def)
  with movie_by_ids_Some [OF m'] show ?thesis by blast
qed

text \<open>
  C1. Whenever the query supplies an external id (TVDB or IMDB for a series; TMDB or IMDB
  for a movie) that matches an entity of the target service, the resolver returns an entity
  matched by a supplied id, after the single request that lists the entities. The result
  is the same for every title and year, so title matching is never consulted, even when
  another entity is an exact title match.
\<close>

theorem external_id_match_wins:
  "(sn_series sn = Content series_list \<and> s \<in> set series_list
      \<and> series_id_match tvdb_id imdb_id s
    \<longrightarrow> (\<exists>s'\<in>set series_list. series_id_match tvdb_id imdb_id s'
           \<and> (\<forall>title year. find_series_by_jellyfin_metadata sn title year tvdb_id imdb_id
                               = ([Sonarr_GET_series], Inr (Some s')))))
   \<and> (rd_movie rd = Content movies_list \<and> m \<in> set movies_list
      \<and> movie_id_match tmdb_id imdb_id' m
    \<longrightarrow> (\<exists>m'\<in>set movies_list. movie_id_match tmdb_id imdb_id' m'
           \<and> (\<forall>title year. find_movie_by_jellyfin_metadata rd title year tmdb_id imdb_id'
                               = ([Radarr_GET_movie], Inr (Some m')))))"
  using find_series_by_id find_movie_by_id by blast

theorem external_id_match_wins_witness:
  "sn_series sonarr_two = Content [series_foo, series_bar]
     \<and> series_foo \<in> set [series_foo, series_bar]
     \<and> series_id_match (Some ''123'') None series_foo
     \<and> clean_title ''Bar'' = clean_title (series_title series_bar)
     \<and> (\<exists>s'\<in>set [series_foo, series_bar]. series_id_match (Some ''123'') None s'
           \<and> (\<forall>title year.
                 find_series_by_jellyfin_metadata sonarr_two title year (Some ''123'') None
                   = ([Sonarr_GET_series], Inr (Some s'))))
     \<and> find_series_by_jellyfin_metadata sonarr_two ''Bar'' None (Some ''123'') None
           = ([Sonarr_GET_series], Inr (Some series_foo))
     \<and> rd_movie radarr_two = Content [movie_beta, movie_alpha]
     \<and> movie_alpha \<in> set [movie_beta, movie_alpha]
     \<and> movie_id_match (Some ''10'') None movie_alpha
     \<and> (\<exists>m'\<in>set [movie_beta, movie_alpha]. movie_id_match (Some ''10'') None m'
           \<and> (\<forall>title year.
                 find_movie_by_jellyfin_metadata radarr_two title year (Some ''10'') None
                   = ([Radarr_GET_movie], Inr (Some m'))))"
proof -
  have a: "sn_series sonarr_two = Content [series_foo, series_bar]"
    by (simp add: sonarr_two_def)
  have b: "series_id_match (Some ''123'') None series_foo"
    by code_simp
  have c: "clean_title ''Bar'' = clean_title (series_title series_bar)"
    by code_simp
  have d: "find_series_by_jellyfin_metadata sonarr_two ''Bar'' None (Some ''123'') None
             = ([Sonarr_GET_series], Inr (Some series_foo))"
    by code_simp
  have e: "rd_movie radarr_two = Content [movie_beta, movie_alpha]"
    by (simp add: radarr_two_def)
  have f: "movie_id_match (Some ''10'') None movie_alpha"
    by code_simp
  show ?thesis
    using external_id_match_wins [of sonarr_two "[series_foo, series_bar]" series_foo
        "Some ''123''" None radarr_two "[movie_beta, movie_alpha]" movie_alpha "Some ''10''" None]
      a b c d e f
    by simp
qed

text \<open>
  The series resolver gives the TVDB id priority over the IMDB id across the whole list:
  when the TVDB id matches some series, a TVDB-matched series is returned whatever the
  IMDB id matches.
\<close>

lemma find_series_tvdb_first:
  assumes "sn_series sn = Content xs" and "s \<in> set xs"
      and "t \<noteq> []" and "series_tvdb_match t s"
  shows "\<exists>s'\<in>set xs. series_tvdb_match t s'
           \<and> find_series_by_jellyfin_metadata sn title year (Some t) imdb_id
                = ([Sonarr_GET_series], Inr (Some s'))"
proof -
  from first_match_exists [of s xs "series_tvdb_match t", OF assms(2,4)] obtain s' where
    s': "first_match (series_tvdb_match t) xs = Some s'" by blast
  have "find_series_by_jellyfin_metadata sn title year (Some t) imdb_id
          = ([Sonarr_GET_series], Inr (Some s'))"
    unfolding find_series_by_jellyfin_metadata_def
    using assms(3) get_all_series_Content [OF assms(1)] s'
    by (simp add: io_bind_def io_return_def truthy_str_def series_by_tvdb_def)
  with first_match_Some [OF s'] show ?thesis by blast
qed

text \<open>
  C4, on the code. The query carries the TMDB id of \<open>movie_alpha\<close> and the IMDB id of
  \<open>movie_beta\<close>, and Radarr lists \<open>movie_beta\<close> first. The single loop of the movie
  resolver tests both ids on each movie in turn, so it returns \<open>movie_beta\<close>, the movie
  matched by the IMDB id, and not the TMDB-matched \<open>movie_alpha\<close>.
\<close>

theorem find_movie_returns_imdb_match_listed_first:
  "movie_tmdb_match (Some ''10'') movie_alpha
     \<and> movie_imdb_match (Some ''tt2'') movie_beta
     \<and> \<not> movie_tmdb_match (Some ''10'') movie_beta
     \<and> find_movie_by_jellyfin_metadata radarr_two ''Gamma'' None (Some ''10'') (Some ''tt2'')
           = ([Radarr_GET_movie], Inr (Some movie_beta))"
  by code_simp

section \<open>Properties of the sync executor\<close>

lemma fold_max_ge: "a \<le> fold max ids (a::nat)"
proof (induction ids arbitrary: a)
  case Nil
  then show ?case by simp
next
  case (Cons y ys)
  have "a \<le> max y a" by simp
  also have "\<dots> \<le> fold max ys (max y a)" by (rule Cons.IH)
  finally show ?case by simp
qed

lemma fold_max_member: "x \<in> set ids \<Longrightarrow> x \<le> fold max ids (a::nat)"
proof (induction ids arbitrary: a)
  case Nil
  then show ?case by simp
next
  case (Cons y ys)
  show ?case
  proof (cases "x = y")
    case True
    have "y \<le> max y a" by simp
    also have "\<dots> \<le> fold max ys (max y a)" by (rule fold_max_ge)
    finally show ?thesis using True by simp
  next
    case False
    with Cons.prems have "x \<in> set ys" by simp
    then show ?thesis using Cons.IH by simp
  qed
qed

lemma fresh_id_new: "fresh_id ids \<notin> set ids"
proof
  assume "fresh_id ids \<in> set ids"
  then have "fresh_id ids \<le> fold max ids 0" by (rule fold_max_member)
  then show False by (simp add: fresh_id_def)
qed

lemma write_status_events:
  assumes "write_status st lid s f = (st', es)" and "e \<in> set es"
  shows "\<exists>l\<in>set (sync_logs st). log_id l = lid \<and> e = Status_write lid (log_status l) s"
proof -
  from assms(1) have "es = map (\<lambda>l. Status_write lid (log_status l) s)
        (filter (\<lambda>l. log_id l = lid) (sync_logs st))"
    by (simp add: write_status_def)
  with assms(2) show ?thesis by auto
qed

lemma write_status_eq:
  "write_status st lid s f =
     (st\<lparr>sync_logs := update_where (\<lambda>l. log_id l = lid) (\<lambda>l. f (l\<lparr>log_status := s\<rparr>))
                        (sync_logs st)\<rparr>,
      map (\<lambda>l. Status_write lid (log_status l) s) (filter (\<lambda>l. log_id l = lid) (sync_logs st)))"
  by (simp add: write_status_def)

lemma update_where_log_ids:
  assumes "\<And>l. log_id (f l) = log_id l"
  shows "map log_id (update_where (\<lambda>l. log_id l = lid) (\<lambda>l. f (l\<lparr>log_status := s\<rparr>)) rows)
           = map log_id rows"
  unfolding update_where_def by (induction rows) (simp_all add: assms)

lemma update_where_log_status:
  assumes "\<And>l. log_id (f l) = log_id l" "\<And>l. log_status (f l) = log_status l"
  shows "\<forall>l\<in>set (update_where (\<lambda>l. log_id l = lid) (\<lambda>l. f (l\<lparr>log_status := s\<rparr>)) rows).
           log_id l = lid \<longrightarrow> log_status l = s"
  unfolding update_where_def by (induction rows) (simp_all add: assms)

lemma write_status_logs:
  assumes "write_status st lid s f = (st', es)"
      and "\<And>l. log_id (f l) = log_id l" and "\<And>l. log_status (f l) = log_status l"
  shows "map log_id (sync_logs st') = map log_id (sync_logs st)"
    and "\<forall>l\<in>set (sync_logs st'). log_id l = lid \<longrightarrow> log_status l = s"
    and "media_items st' = media_items st"
    and "sonarr_mappings st' = sonarr_mappings st"
    and "radarr_mappings st' = radarr_mappings st"
proof -
  from assms(1) have logs: "sync_logs st' =
      update_where (\<lambda>l. log_id l = lid) (\<lambda>l. f (l\<lparr>log_status := s\<rparr>)) (sync_logs st)"
    and rest: "media_items st' = media_items st" "sonarr_mappings st' = sonarr_mappings st"
      "radarr_mappings st' = radarr_mappings st"
    unfolding write_status_eq by auto
  show "map log_id (sync_logs st') = map log_id (sync_logs st)"
    unfolding logs using assms(2) by (rule update_where_log_ids)
  show "\<forall>l\<in>set (sync_logs st'). log_id l = lid \<longrightarrow> log_status l = s"
    unfolding logs using assms(2,3) by (rule update_where_log_status)
  from rest show "media_items st' = media_items st" "sonarr_mappings st' = sonarr_mappings st"
    "radarr_mappings st' = radarr_mappings st" by simp_all
qed

lemma retried_log_Some:
  "retried_log st is_retry olid = Some log
     \<Longrightarrow> is_retry \<and> olid = Some (log_id log) \<and> log \<in> set (sync_logs st)"
  unfolding retried_log_def
  by (cases olid) (auto split: if_splits dest: first_match_Some)

lemma update_sync_log_result:
  assumes "update_sync_log st mi sm service is_retry olid = (st2, lid, es2)"
  shows "(\<forall>l\<in>set (sync_logs st2). log_id l = lid \<longrightarrow> log_status l = PROCESSING)
     \<and> lid \<in> log_id ` set (sync_logs st2)
     \<and> (\<forall>e\<in>set es2. \<exists>old. e = Status_write lid old PROCESSING \<and> is_retry \<and> olid = Some lid)
     \<and> media_items st2 = media_items st
     \<and> sonarr_mappings st2 = sonarr_mappings st
     \<and> radarr_mappings st2 = radarr_mappings st"
proof (cases "retried_log st is_retry olid")
  case None
  let ?new = "new_sync_log st mi sm service"
  from None assms have eq: "st2 = st\<lparr>sync_logs := sync_logs st @ [?new]\<rparr>"
      "lid = log_id ?new" "es2 = []"
    by (simp_all add: update_sync_log_def Let_def)
  have new: "log_id ?new = fresh_id (map log_id (sync_logs st))" "log_status ?new = PROCESSING"
    by (simp_all add: new_sync_log_def)
  have old: "\<forall>l\<in>set (sync_logs st). log_id l \<noteq> log_id ?new"
    using fresh_id_new [of "map log_id (sync_logs st)"] new(1) by force
  show ?thesis
    unfolding eq using new(2) old by simp
next
  case (Some log)
  from retried_log_Some [OF Some] have log: "is_retry" "olid = Some (log_id log)"
      "log \<in> set (sync_logs st)" by simp_all
  from Some assms have ws: "write_status st (log_id log) PROCESSING
        (\<lambda>l. l\<lparr>log_error_message := None\<rparr>) = (st2, es2)" and lid: "lid = log_id log"
    by (auto simp: update_sync_log_def split: prod.splits)
  have keep: "\<And>l. log_id (l\<lparr>log_error_message := None\<rparr>) = log_id l"
    "\<And>l. log_status (l\<lparr>log_error_message := None\<rparr>) = log_status l" by simp_all
  have a: "\<forall>l\<in>set (sync_logs st2). log_id l = lid \<longrightarrow> log_status l = PROCESSING"
    using write_status_logs(2) [OF ws keep] lid by simp
  have "log_id log \<in> set (map log_id (sync_logs st))" using log(3) by force
  then have "log_id log \<in> set (map log_id (sync_logs st2))"
    using write_status_logs(1) [OF ws keep] by simp
  then have b: "lid \<in> log_id ` set (sync_logs st2)" using lid by simp
  have c: "\<forall>e\<in>set es2. \<exists>old. e = Status_write lid old PROCESSING \<and> is_retry \<and> olid = Some lid"
    using write_status_events [OF ws] log(1,2) lid by blast
  show ?thesis
    using a b c write_status_logs(3-5) [OF ws keep] by simp
qed

lemma record_outcome_result:
  assumes "record_outcome st lid ext outcome = (st', es)"
  shows "\<forall>e\<in>set es. \<exists>l\<in>set (sync_logs st). log_id l = lid
           \<and> e = Status_write lid (log_status l)
                   (case outcome of Inr True \<Rightarrow> COMPLETED | _ \<Rightarrow> FAILED)"
    and "\<forall>l\<in>set (sync_logs st'). log_id l = lid
           \<longrightarrow> log_status l = (case outcome of Inr True \<Rightarrow> COMPLETED | _ \<Rightarrow> FAILED)"
    and "map log_id (sync_logs st') = map log_id (sync_logs st)"
    and "sonarr_mappings st' = sonarr_mappings st"
    and "radarr_mappings st' = radarr_mappings st"
proof -
  let ?s = "case outcome of Inr True \<Rightarrow> COMPLETED | _ \<Rightarrow> FAILED"
  obtain f where ws: "write_status st lid ?s f = (st', es)"
    and keep: "\<And>l. log_id (f l) = log_id l" "\<And>l. log_status (f l) = log_status l"
  proof (cases outcome)
    case (Inl e)
    with assms have "write_status st lid ?s (\<lambda>l. l\<lparr>log_error_message := Some (str_of_exn e)\<rparr>)
        = (st', es)" by (simp add: record_outcome_def)
    then show ?thesis by (rule that) simp_all
  next
    case (Inr success)
    with assms have "write_status st lid ?s
        (\<lambda>l. l\<lparr>log_external_id := Some ext,
               log_error_message := (if success then log_error_message l
                  else Some ''Failed to update monitoring status'')\<rparr>) = (st', es)"
      by (cases success) (simp_all add: record_outcome_def)
    then show ?thesis by (rule that) simp_all
  qed
  from write_status_events [OF ws]
  show "\<forall>e\<in>set es. \<exists>l\<in>set (sync_logs st). log_id l = lid
          \<and> e = Status_write lid (log_status l) ?s" by blast
  from write_status_logs [OF ws keep]
  show "\<forall>l\<in>set (sync_logs st'). log_id l = lid \<longrightarrow> log_status l = ?s"
    "map log_id (sync_logs st') = map log_id (sync_logs st)"
    "sonarr_mappings st' = sonarr_mappings st"
    "radarr_mappings st' = radarr_mappings st" by simp_all
qed
lemma io_catch_return: "\<exists>es x. io_catch m (io_return d) = (es, Inr x)"
proof (cases m)
  case (Pair es r)
  then show ?thesis
    by (cases r) (simp_all add: io_catch_def io_return_def)
qed

lemma audit_writes:
  assumes usl: "update_sync_log st1 mi sm service r olid = (st2, lid, es2)"
      and ro: "record_outcome st2 lid ext outcome = (st3, es4)"
      and e: "Status_write i old new \<in> set es2 \<union> set es4"
  shows "(new = PROCESSING \<and> r \<and> olid = Some i)
           \<or> (old = PROCESSING \<and> (new = COMPLETED \<or> new = FAILED))"
proof -
  note u = update_sync_log_result [OF usl]
  from e show ?thesis
  proof
    assume "Status_write i old new \<in> set es2"
    with u show ?thesis by auto
  next
    assume "Status_write i old new \<in> set es4"
    with record_outcome_result(1) [OF ro] obtain l where
      l: "l \<in> set (sync_logs st2)" "log_id l = lid"
        "Status_write i old new = Status_write lid (log_status l)
           (case outcome of Inr True \<Rightarrow> COMPLETED | _ \<Rightarrow> FAILED)"
      by blast
    from l(1,2) u have "log_status l = PROCESSING" by blast
    with l(3) have "old = PROCESSING"
      and "new = (case outcome of Inr True \<Rightarrow> COMPLETED | _ \<Rightarrow> FAILED)" by simp_all
    then show ?thesis by (auto split: sum.splits bool.splits)
  qed
qed

lemma sync_with_sonarr_writes:
  assumes run: "sync_with_sonarr sv st mi ctx sm r olid = (st', es)"
      and e: "Status_write i old new \<in> set es"
  shows "(new = PROCESSING \<and> r \<and> olid = Some i)
           \<or> (old = PROCESSING \<and> (new = COMPLETED \<or> new = FAILED))"
proof -
  obtain es0 res where m: "sonarr_mapping_for sv st mi ctx = (es0, res)" by (cases "sonarr_mapping_for sv st mi ctx")
  show ?thesis
  proof (cases res)
    case (Inl x)
    with run m have "es = Select_sonarr_mapping (mi_id mi) # map Remote es0"
      by (simp add: sync_with_sonarr_def)
    with e show ?thesis by auto
  next
    case (Inr found)
    show ?thesis
    proof (cases found)
      case None
      with run m Inr have "es = Select_sonarr_mapping (mi_id mi) # map Remote es0"
        by (simp add: sync_with_sonarr_def)
      with e show ?thesis by auto
    next
      case (Some p)
      obtain st1 mapping where p: "p = (st1, mapping)" by (cases p)
      obtain st2 lid es2 where usl: "update_sync_log st1 mi sm ''sonarr'' r olid = (st2, lid, es2)"
        by (cases "update_sync_log st1 mi sm ''sonarr'' r olid") auto
      obtain es3 outcome where d: "sonarr_dispatch sv mi mapping sm = (es3, outcome)"
        by (cases "sonarr_dispatch sv mi mapping sm")
      obtain st3 es4 where ro: "record_outcome st2 lid (str_of_int (sonarr_series_id mapping)) outcome = (st3, es4)"
        by (cases "record_outcome st2 lid (str_of_int (sonarr_series_id mapping)) outcome")
      from run m Inr Some p usl d ro
      have "es = Select_sonarr_mapping (mi_id mi) # map Remote es0 @ es2 @ map Remote es3 @ es4"
        by (simp add: sync_with_sonarr_def)
      with e have "Status_write i old new \<in> set es2 \<union> set es4" by auto
      with usl ro show ?thesis by (rule audit_writes)
    qed
  qed
qed

lemma sync_with_radarr_writes:
  assumes run: "sync_with_radarr sv st mi ctx sm r olid = (st', es)"
      and e: "Status_write i old new \<in> set es"
  shows "(new = PROCESSING \<and> r \<and> olid = Some i)
           \<or> (old = PROCESSING \<and> (new = COMPLETED \<or> new = FAILED))"
proof -
  obtain es0 res where m: "radarr_mapping_for sv st mi ctx = (es0, res)" by (cases "radarr_mapping_for sv st mi ctx")
  show ?thesis
  proof (cases res)
    case (Inl x)
    with run m have "es = Select_radarr_mapping (mi_id mi) # map Remote es0"
      by (simp add: sync_with_radarr_def)
    with e show ?thesis by auto
  next
    case (Inr found)
    show ?thesis
    proof (cases found)
      case None
      with run m Inr have "es = Select_radarr_mapping (mi_id mi) # map Remote es0"
        by (simp add: sync_with_radarr_def)
      with e show ?thesis by auto
    next
      case (Some p)
      obtain st1 mapping where p: "p = (st1, mapping)" by (cases p)
      obtain st2 lid es2 where usl: "update_sync_log st1 mi sm ''radarr'' r olid = (st2, lid, es2)"
        by (cases "update_sync_log st1 mi sm ''radarr'' r olid") auto
      obtain es3 outcome where d: "update_movie_monitoring (sv_radarr sv) (radarr_movie_id mapping) sm = (es3, outcome)"
        by (cases "update_movie_monitoring (sv_radarr sv) (radarr_movie_id mapping) sm")
      obtain st3 es4 where ro: "record_outcome st2 lid (str_of_int (radarr_movie_id mapping)) outcome = (st3, es4)"
        by (cases "record_outcome st2 lid (str_of_int (radarr_movie_id mapping)) outcome")
      from run m Inr Some p usl d ro
      have "es = Select_radarr_mapping (mi_id mi) # map Remote es0 @ es2 @ map Remote es3 @ es4"
        by (simp add: sync_with_radarr_def)
      with e have "Status_write i old new \<in> set es2 \<union> set es4" by auto
      with usl ro show ?thesis by (rule audit_writes)
    qed
  qed
qed

lemma sync_with_service_writes:
  assumes "sync_with_service sv st mi ctx sm force r olid = (st', es)"
      and "Status_write i old new \<in> set es"
  shows "(new = PROCESSING \<and> r \<and> olid = Some i)
           \<or> (old = PROCESSING \<and> (new = COMPLETED \<or> new = FAILED))"
  using assms sync_with_sonarr_writes sync_with_radarr_writes
  unfolding sync_with_service_def by (metis (full_types))
lemma distinct_log_ids:
  assumes "distinct (map log_id logs)" and "l \<in> set logs" and "l' \<in> set logs"
      and "log_id l = log_id l'"
  shows "l = l'"
  using assms by (meson distinct_map inj_onD)

lemma retry_sync_action_writes:
  assumes run: "retry_sync_action st lid force = (code, st', es, task)"
      and ids: "distinct (map log_id (sync_logs st))"
      and e: "Status_write i old new \<in> set es"
  shows "i = lid \<and> (old = FAILED \<or> old = PENDING \<or> (old = COMPLETED \<and> force))
           \<and> (new = PROCESSING \<or> new = FAILED)"
proof (cases "first_match (\<lambda>l. log_id l = lid) (sync_logs st)")
  case None
  with run have "es = []" by (simp add: retry_sync_action_def)
  with e show ?thesis by simp
next
  case (Some log)
  from first_match_Some [OF Some] have log: "log \<in> set (sync_logs st)" "log_id log = lid"
    by simp_all
  show ?thesis
  proof (cases "(log_status log = COMPLETED \<and> \<not> force) \<or> log_status log = PROCESSING")
    case True
    with run Some have "es = []" by (auto simp: retry_sync_action_def Let_def)
    with e show ?thesis by simp
  next
    case False
    then have old: "log_status log = FAILED \<or> log_status log = PENDING
        \<or> (log_status log = COMPLETED \<and> force)"
      by (cases "log_status log") auto
    from run Some False obtain s f where ws: "write_status st lid s f = (st', es)"
      and s: "s = PROCESSING \<or> s = FAILED"
      by (auto simp: retry_sync_action_def Let_def split: option.splits prod.splits)
    from write_status_events [OF ws e] obtain l where
      l: "l \<in> set (sync_logs st)" "log_id l = lid" "i = lid" "old = log_status l" "new = s"
      by auto
    from distinct_log_ids [OF ids l(1) log(1)] l(2) log(2) have "l = log" by simp
    with l old s show ?thesis by simp
  qed
qed

lemma write_status_other_rows:
  assumes "write_status st lid s f = (st', es)" and "l \<in> set (sync_logs st')"
      and "log_id l \<noteq> lid" and "\<And>l. log_id (f l) = log_id l"
  shows "l \<in> set (sync_logs st)"
proof -
  from assms(1) have "sync_logs st' =
      update_where (\<lambda>l. log_id l = lid) (\<lambda>l. f (l\<lparr>log_status := s\<rparr>)) (sync_logs st)"
    unfolding write_status_eq by auto
  with assms(2) obtain l0 where l0: "l0 \<in> set (sync_logs st)"
      "l = (if log_id l0 = lid then f (l0\<lparr>log_status := s\<rparr>) else l0)"
    unfolding update_where_def by auto
  show ?thesis
  proof (cases "log_id l0 = lid")
    case True
    with l0(2) assms(4) have "log_id l = lid" by simp
    with assms(3) show ?thesis by simp
  next
    case False
    with l0 show ?thesis by simp
  qed
qed

lemma retry_each_Cons_None:
  "first_match (\<lambda>m. mi_id m = log_media_item_id log) (media_items st) = None
     \<Longrightarrow> retry_each st (log # rest) = retry_each st rest"
  by simp

lemma retry_each_Cons_Some:
  assumes "first_match (\<lambda>m. mi_id m = log_media_item_id log) (media_items st) = Some media_item"
      and "write_status st (log_id log) PROCESSING (\<lambda>l. l\<lparr>log_error_message := None\<rparr>)
             = (st1, es1)"
      and "retry_each st1 rest = (st2, es2, tasks2)"
  shows "retry_each st (log # rest)
           = (st2, es1 @ es2, (retry_webhook_data ''bulk_retry_user'' media_item, log_id log) # tasks2)"
  using assms by simp

lemma retry_each_writes:
  assumes "retry_each st logs = (st', es, tasks)"
      and "distinct (map log_id logs)"
      and "\<forall>log\<in>set logs. \<forall>l\<in>set (sync_logs st). log_id l = log_id log \<longrightarrow> log_status l = FAILED"
      and "Status_write i old new \<in> set es"
  shows "old = FAILED \<and> new = PROCESSING"
  using assms
proof (induction logs arbitrary: st st' es tasks)
  case Nil
  then show ?case by simp
next
  case (Cons log rest)
  have d: "distinct (map log_id rest)" using Cons.prems(2) by simp
  show ?case
  proof (cases "first_match (\<lambda>m. mi_id m = log_media_item_id log) (media_items st)")
    case None
    have "retry_each st rest = (st', es, tasks)"
      using Cons.prems(1) unfolding retry_each_Cons_None [OF None] .
    moreover have "\<forall>log\<in>set rest. \<forall>l\<in>set (sync_logs st).
        log_id l = log_id log \<longrightarrow> log_status l = FAILED"
      using Cons.prems(3) by simp
    ultimately show ?thesis using d Cons.prems(4) Cons.IH by blast
  next
    case (Some media_item)
    obtain st1 es1 where ws: "write_status st (log_id log) PROCESSING
        (\<lambda>l. l\<lparr>log_error_message := None\<rparr>) = (st1, es1)"
      by (cases "write_status st (log_id log) PROCESSING (\<lambda>l. l\<lparr>log_error_message := None\<rparr>)")
    obtain st2 es2 tasks2 where rest: "retry_each st1 rest = (st2, es2, tasks2)"
      by (cases "retry_each st1 rest") auto
    have es: "es = es1 @ es2"
      using Cons.prems(1) unfolding retry_each_Cons_Some [OF Some ws rest] by simp
    from Cons.prems(4) es have "Status_write i old new \<in> set es1 \<or> Status_write i old new \<in> set es2"
      by simp
    then show ?thesis
    proof
      assume "Status_write i old new \<in> set es1"
      from write_status_events [OF ws this] obtain l where
        l: "l \<in> set (sync_logs st)" "log_id l = log_id log"
          "Status_write i old new = Status_write (log_id log) (log_status l) PROCESSING"
        by blast
      have "log_status l = FAILED" using Cons.prems(3) l(1,2) by simp
      with l(3) show ?thesis by simp
    next
      assume in2: "Status_write i old new \<in> set es2"
      have inv: "\<forall>log'\<in>set rest. \<forall>l\<in>set (sync_logs st1).
          log_id l = log_id log' \<longrightarrow> log_status l = FAILED"
      proof (intro ballI impI)
        fix log' l
        assume a: "log' \<in> set rest" "l \<in> set (sync_logs st1)" "log_id l = log_id log'"
        from Cons.prems(2) have "log_id log \<notin> log_id ` set rest" by simp
        with a(1) have "log_id log' \<noteq> log_id log" by (metis imageI)
        with a(3) have "log_id l \<noteq> log_id log" by simp
        with write_status_other_rows [OF ws a(2)] have "l \<in> set (sync_logs st)" by simp
        moreover have "\<forall>l\<in>set (sync_logs st). log_id l = log_id log' \<longrightarrow> log_status l = FAILED"
          using Cons.prems(3) a(1) by simp
        ultimately show "log_status l = FAILED" using a(3) by blast
      qed
      from rest d inv in2 show ?thesis by (rule Cons.IH)
    qed
  qed
qed

lemma retry_failed_syncs_writes:
  assumes run: "retry_failed_syncs st limit recent = (st', es, tasks)"
      and ids: "distinct (map log_id (sync_logs st))"
      and e: "Status_write i old new \<in> set es"
  shows "old = FAILED \<and> new = PROCESSING"
proof -
  let ?sel = "take limit (filter (\<lambda>l. log_status l = FAILED \<and> recent l) (sync_logs st))"
  have sub: "set ?sel \<subseteq> {l \<in> set (sync_logs st). log_status l = FAILED}"
    using set_take_subset [of limit "filter (\<lambda>l. log_status l = FAILED \<and> recent l) (sync_logs st)"]
    by auto
  have d: "distinct (map log_id ?sel)"
    using ids by (simp add: distinct_map_filter take_map [symmetric] distinct_take)
  have "\<forall>log\<in>set ?sel. \<forall>l\<in>set (sync_logs st). log_id l = log_id log \<longrightarrow> log_status l = FAILED"
  proof (intro ballI impI)
    fix log l
    assume a: "log \<in> set ?sel" "l \<in> set (sync_logs st)" "log_id l = log_id log"
    with sub have "log \<in> set (sync_logs st)" "log_status log = FAILED" by auto
    with distinct_log_ids [OF ids a(2) this(1) a(3)] show "log_status l = FAILED" by simp
  qed
  with run d show ?thesis using e unfolding retry_failed_syncs_def by (rule retry_each_writes)
qed

text \<open>
  C3, as the code has it. The claim says that only a failed record is ever set back to
  processing and that a completed record never is. A retry request with \<open>force=true\<close> on
  the completed record 1 passes the guard of \<open>retry_sync_action\<close>, which then writes
  processing over completed and answers 200.
\<close>

theorem retry_completed_with_force_counterexample:
  "map log_status (sync_logs store_one) = [COMPLETED]
     \<and> (case retry_sync_action store_one 1 True of
          (code, st', es, task) \<Rightarrow>
            code = 200 \<and> es = [Status_write 1 COMPLETED PROCESSING]
            \<and> map log_status (sync_logs st') = [PROCESSING])"
  by code_simp

text \<open>
  C3, amended. Every status write of the sync executor on an existing Audit Record goes
  from processing to completed or failed, except that a sync in retry mode first sets the
  record named by \<open>original_log_id\<close> to processing. A retry request leaves a processing
  record alone and, without force, a completed record too; a failed or pending record,
  and with \<open>force=true\<close> also a completed record, is set back to processing, or to
  failed when the retry cannot start. A bulk retry sets failed records to processing.
  Record ids are unique, as the primary key has them.
\<close>

theorem status_transitions:
  "distinct (map log_id (sync_logs st)) \<longrightarrow>
     (\<forall>i old new.
        Status_write i old new \<in> set (fst (snd (snd (retry_sync_action st lid force))))
        \<longrightarrow> i = lid \<and> (old = FAILED \<or> old = PENDING \<or> (old = COMPLETED \<and> force))
              \<and> (new = PROCESSING \<or> new = FAILED))
     \<and> (\<forall>i old new.
        Status_write i old new \<in> set (fst (snd (retry_failed_syncs st limit recent)))
        \<longrightarrow> old = FAILED \<and> new = PROCESSING)
     \<and> (\<forall>i old new.
        Status_write i old new
          \<in> set (snd (sync_with_service sv st media_item webhook_context should_monitor
                        force_sync is_retry original_log_id))
        \<longrightarrow> (new = PROCESSING \<and> is_retry \<and> original_log_id = Some i)
              \<or> (old = PROCESSING \<and> (new = COMPLETED \<or> new = FAILED)))"
proof (intro impI conjI allI)
  fix i old new
  assume ids: "distinct (map log_id (sync_logs st))"
  {
    assume e: "Status_write i old new \<in> set (fst (snd (snd (retry_sync_action st lid force))))"
    obtain code st' es task where run: "retry_sync_action st lid force = (code, st', es, task)"
      by (cases "retry_sync_action st lid force") auto
    with e have "Status_write i old new \<in> set es" by simp
    from retry_sync_action_writes [OF run ids this]
    show "i = lid" "old = FAILED \<or> old = PENDING \<or> (old = COMPLETED \<and> force)"
      "new = PROCESSING \<or> new = FAILED" by simp_all
  }
  {
    assume e: "Status_write i old new \<in> set (fst (snd (retry_failed_syncs st limit recent)))"
    obtain st' es tasks where run: "retry_failed_syncs st limit recent = (st', es, tasks)"
      by (cases "retry_failed_syncs st limit recent") auto
    with e have "Status_write i old new \<in> set es" by simp
    from retry_failed_syncs_writes [OF run ids this]
    show "old = FAILED" "new = PROCESSING" by simp_all
  }
  {
    assume e: "Status_write i old new
      \<in> set (snd (sync_with_service sv st media_item webhook_context should_monitor
                    force_sync is_retry original_log_id))"
    obtain st' es where run: "sync_with_service sv st media_item webhook_context should_monitor
        force_sync is_retry original_log_id = (st', es)"
      by (cases "sync_with_service sv st media_item webhook_context should_monitor
        force_sync is_retry original_log_id")
    with e have "Status_write i old new \<in> set es" by simp
    with run show "(new = PROCESSING \<and> is_retry \<and> original_log_id = Some i)
        \<or> (old = PROCESSING \<and> (new = COMPLETED \<or> new = FAILED))"
      by (rule sync_with_service_writes)
  }
qed
theorem status_transitions_witness:
  "distinct (map log_id (sync_logs store_one))
   \<and> Status_write 1 COMPLETED PROCESSING
        \<in> set (fst (snd (snd (retry_sync_action store_one 1 True))))
   \<and> ((1::nat) = 1 \<and> (COMPLETED = FAILED \<or> COMPLETED = PENDING \<or> (COMPLETED = COMPLETED \<and> True))
        \<and> (PROCESSING = PROCESSING \<or> PROCESSING = FAILED))
   \<and> Status_write 2 PROCESSING COMPLETED
        \<in> set (snd (sync_with_service services_specials store_one item_special None False
                      True False None))
   \<and> ((COMPLETED = PROCESSING \<and> False \<and> None = Some (2::nat))
        \<or> (PROCESSING = PROCESSING \<and> (COMPLETED = COMPLETED \<or> COMPLETED = FAILED)))"
  (is "?D \<and> ?E1 \<and> ?C1 \<and> ?E2 \<and> ?C2")
proof -
  have d: ?D by (simp add: store_one_def)
  have e1: ?E1 by code_simp
  have e2: ?E2 by code_simp
  note inst = status_transitions [of store_one 1 True 10 "\<lambda>_. True" services_specials
      item_special None False True False None, THEN mp, OF d]
  from inst e1 have c1: ?C1 by blast
  from inst e2 have c2: ?C2 by blast
  show ?thesis by (rule conjI [OF d conjI [OF e1 conjI [OF c1 conjI [OF e2 c2]]]])
qed

lemma remote_calls_append: "remote_calls (es @ es') = remote_calls es @ remote_calls es'"
  by (induction es rule: remote_calls.induct) simp_all

lemma remote_calls_Remote: "remote_calls (map Remote cs) = cs"
  by (induction cs) simp_all

lemma remote_calls_writes:
  "\<forall>e\<in>set es. \<exists>i old new. e = Status_write i old new \<Longrightarrow> remote_calls es = []"
  by (induction es rule: remote_calls.induct) auto

lemma update_season_monitoring_special:
  "update_season_monitoring sn True series_id (Some 0) monitored = ([], Inr True)"
  by (simp add: update_season_monitoring_def io_catch_def io_return_def)

lemma update_episode_monitoring_special:
  assumes "sn_episode_id sn episode_id = Content ep" and "episode_seasonNumber ep = Some 0"
  shows "update_episode_monitoring sn True episode_id monitored
           = ([Sonarr_GET_episode_id episode_id], Inr True)"
  using assms
  by (simp add: update_episode_monitoring_def get_episode_by_id_def make_request_def io_bind_def
      io_catch_def io_return_def)

lemma sonarr_mapping_for_stored:
  "first_match (\<lambda>m. sm_media_item_id m = mi_id media_item) (sonarr_mappings st) = Some mapping
     \<Longrightarrow> sonarr_mapping_for sv st media_item webhook_context
           = ([], Inr (Some (st, mapping)))"
  by (simp add: sonarr_mapping_for_def io_return_def)

lemma sync_special_episode:
  assumes ig: "sv_ignore_special_episodes sv"
      and ty: "mi_media_type media_item = EPISODE"
      and m: "sonarr_mapping_for sv st media_item webhook_context
                = (cs, Inr (Some (st1, mapping)))"
      and ep: "sonarr_episode_id mapping = Some episode_id" "episode_id \<noteq> 0"
      and rp: "sn_episode_id (sv_sonarr sv) episode_id = Content ep"
              "episode_seasonNumber ep = Some 0"
      and usl: "update_sync_log st1 media_item should_monitor ''sonarr'' is_retry
                  original_log_id = (st2, lid, es2)"
      and run: "sync_with_service sv st media_item webhook_context should_monitor force
                  is_retry original_log_id = (st', es)"
  shows "remote_calls es = cs @ [Sonarr_GET_episode_id episode_id]
           \<and> lid \<in> log_id ` set (sync_logs st')
           \<and> (\<forall>l\<in>set (sync_logs st'). log_id l = lid \<longrightarrow> log_status l = COMPLETED)"
proof -
  have d: "sonarr_dispatch sv media_item mapping should_monitor
             = ([Sonarr_GET_episode_id episode_id], Inr True)"
    using ig ty ep update_episode_monitoring_special [OF rp]
    by (simp add: sonarr_dispatch_def truthy_int_def)
  obtain st3 es4 where ro: "record_outcome st2 lid (str_of_int (sonarr_series_id mapping))
      (Inr True) = (st3, es4)"
    by (cases "record_outcome st2 lid (str_of_int (sonarr_series_id mapping)) (Inr True)")
  have sonarr: "mi_media_type media_item \<in> {EPISODE, SERIES, SEASON}" using ty by simp
  from run have "sync_with_sonarr sv st media_item webhook_context should_monitor is_retry
      original_log_id = (st', es)"
    unfolding sync_with_service_def using sonarr by simp
  then have "(st3\<lparr>sonarr_mappings :=
        update_where (\<lambda>m. sm_media_item_id m = mi_id media_item)
          (\<lambda>m. m\<lparr>sm_is_monitored := should_monitor\<rparr>) (sonarr_mappings st3)\<rparr>,
      Select_sonarr_mapping (mi_id media_item) # map Remote cs @ es2
        @ [Remote (Sonarr_GET_episode_id episode_id)] @ es4) = (st', es)"
    using m usl d ro by (simp add: sync_with_sonarr_def)
  then have res: "es = Select_sonarr_mapping (mi_id media_item) # map Remote cs @ es2
        @ [Remote (Sonarr_GET_episode_id episode_id)] @ es4"
      "sync_logs st' = sync_logs st3"
    by auto
  note u = update_sync_log_result [OF usl]
  note r = record_outcome_result [OF ro]
  have w2: "\<forall>e\<in>set es2. \<exists>i old new. e = Status_write i old new" using u by blast
  have w4: "\<forall>e\<in>set es4. \<exists>i old new. e = Status_write i old new" using r(1) by blast
  have calls: "remote_calls es = cs @ [Sonarr_GET_episode_id episode_id]"
    unfolding res(1)
    by (simp add: remote_calls_append remote_calls_Remote remote_calls_writes [OF w2]
        remote_calls_writes [OF w4])
  have "lid \<in> set (map log_id (sync_logs st2))" using u by simp
  then have "lid \<in> set (map log_id (sync_logs st3))" using r(3) by simp
  then have ex: "lid \<in> log_id ` set (sync_logs st')" using res(2) by simp
  have "\<forall>l\<in>set (sync_logs st'). log_id l = lid \<longrightarrow> log_status l = COMPLETED"
    using r(2) res(2) by simp
  with calls ex show ?thesis by simp
qed

text \<open>
  C5, as the code has it. The claim says that an episode-level update for a special ends
  with zero remote calls made. \<open>update_episode_monitoring\<close> learns the season of the
  episode from Sonarr: with the specials ignored it still sends the request that fetches
  episode 5 before it answers success, and when that request fails (episode 6 has no
  answer here) it answers failure.
\<close>

theorem special_episode_update_counterexample:
  "sn_episode_id sonarr_specials 5 = Content episode_special
     \<and> episode_seasonNumber episode_special = Some 0
     \<and> update_episode_monitoring sonarr_specials True 5 False
         = ([Sonarr_GET_episode_id 5], Inr True)
     \<and> fst (update_episode_monitoring sonarr_specials True 5 False) \<noteq> []
     \<and> update_episode_monitoring sonarr_specials True 6 False
         = ([Sonarr_GET_episode_id 6], Inr False)"
  by code_simp

text \<open>
  The season-level path of the executor, which the amended claim of C5 leaves out.
  \<open>_sync_with_service\<close> fills in \<open>sonarr_season_number\<close> only for an episode item, so for
  a season item it passes \<open>None\<close> to \<open>update_season_monitoring\<close>: the test on season 0 is
  not taken, the episode list is requested, no episode has the season \<open>None\<close>, and the
  audit row of the sync of season 0 ends failed.
\<close>

lemma season_item_sync_fails:
  "(case sync_with_service services_first store_first season_special None False False
           False None of
      (st', es) \<Rightarrow>
        remote_calls es = [Sonarr_GET_series, Sonarr_GET_episode_list 1]
        \<and> map log_status (filter (\<lambda>l. log_id l = 2) (sync_logs st')) = [FAILED])"
  by code_simp

text \<open>
  C5, amended. With the ignore-special-episodes setting enabled: a season-level update
  called with season number 0 returns success without any remote call; an episode-level
  update first fetches the episode with one request and, when the fetched episode is in
  season 0, returns success without sending a monitoring update. The sync of an episode
  item first resolves its mapping, with no request when the mapping row is stored and
  with the requests of the series search and of the episode search on a first sync; when
  the mapping names an episode that Sonarr reports in season 0, the sync then sends that
  one request for the episode and nothing else, so every monitoring update of the run, if
  any, is one the resolution sent, and it leaves its Audit Record completed.
\<close>

theorem special_episodes_ignored:
  "update_season_monitoring sn True series_id (Some 0) monitored = ([], Inr True)
   \<and> (sn_episode_id sn episode_id = Content ep \<and> episode_seasonNumber ep = Some 0
      \<longrightarrow> update_episode_monitoring sn True episode_id monitored
            = ([Sonarr_GET_episode_id episode_id], Inr True))
   \<and> (first_match (\<lambda>m. sm_media_item_id m = mi_id media_item) (sonarr_mappings st)
          = Some mapping
      \<longrightarrow> sonarr_mapping_for sv st media_item webhook_context
            = ([], Inr (Some (st, mapping))))
   \<and> (sv_ignore_special_episodes sv \<and> mi_media_type media_item = EPISODE
        \<and> sonarr_mapping_for sv st media_item webhook_context
            = (cs, Inr (Some (st_mapped, mapping)))
        \<and> sonarr_episode_id mapping = Some episode_id \<and> episode_id \<noteq> 0
        \<and> sn_episode_id (sv_sonarr sv) episode_id = Content ep
        \<and> episode_seasonNumber ep = Some 0
      \<longrightarrow> (case sync_with_service sv st media_item webhook_context should_monitor force
                  is_retry original_log_id of
             (st', es) \<Rightarrow>
               remote_calls es = cs @ [Sonarr_GET_episode_id episode_id]
               \<and> filter is_monitoring_call (remote_calls es) = filter is_monitoring_call cs
               \<and> (let lid = fst (snd (update_sync_log st_mapped media_item should_monitor
                                       ''sonarr'' is_retry original_log_id))
                  in lid \<in> log_id ` set (sync_logs st')
                     \<and> (\<forall>l\<in>set (sync_logs st'). log_id l = lid
                           \<longrightarrow> log_status l = COMPLETED))))"
proof (intro conjI impI)
  show "update_season_monitoring sn True series_id (Some 0) monitored = ([], Inr True)"
    by (rule update_season_monitoring_special)
next
  assume "sn_episode_id sn episode_id = Content ep \<and> episode_seasonNumber ep = Some 0"
  then show "update_episode_monitoring sn True episode_id monitored
      = ([Sonarr_GET_episode_id episode_id], Inr True)"
    by (simp add: update_episode_monitoring_special)
next
  assume "first_match (\<lambda>m. sm_media_item_id m = mi_id media_item) (sonarr_mappings st)
      = Some mapping"
  then show "sonarr_mapping_for sv st media_item webhook_context
      = ([], Inr (Some (st, mapping)))"
    by (rule sonarr_mapping_for_stored)
next
  assume a: "sv_ignore_special_episodes sv \<and> mi_media_type media_item = EPISODE
        \<and> sonarr_mapping_for sv st media_item webhook_context
            = (cs, Inr (Some (st_mapped, mapping)))
        \<and> sonarr_episode_id mapping = Some episode_id \<and> episode_id \<noteq> 0
        \<and> sn_episode_id (sv_sonarr sv) episode_id = Content ep
        \<and> episode_seasonNumber ep = Some 0"
  obtain st2 lid es2 where usl: "update_sync_log st_mapped media_item should_monitor ''sonarr''
      is_retry original_log_id = (st2, lid, es2)"
    by (cases "update_sync_log st_mapped media_item should_monitor ''sonarr'' is_retry
      original_log_id") auto
  obtain st' es where run: "sync_with_service sv st media_item webhook_context should_monitor
      force is_retry original_log_id = (st', es)"
    by (cases "sync_with_service sv st media_item webhook_context should_monitor force
      is_retry original_log_id")
  from a have ig: "sv_ignore_special_episodes sv" and ty: "mi_media_type media_item = EPISODE"
    and m: "sonarr_mapping_for sv st media_item webhook_context
              = (cs, Inr (Some (st_mapped, mapping)))"
    and e1: "sonarr_episode_id mapping = Some episode_id" and e2: "episode_id \<noteq> 0"
    and r1: "sn_episode_id (sv_sonarr sv) episode_id = Content ep"
    and r2: "episode_seasonNumber ep = Some 0"
    by simp_all
  have "remote_calls es = cs @ [Sonarr_GET_episode_id episode_id]
      \<and> lid \<in> log_id ` set (sync_logs st')
      \<and> (\<forall>l\<in>set (sync_logs st'). log_id l = lid \<longrightarrow> log_status l = COMPLETED)"
    by (rule sync_special_episode [OF ig ty m e1 e2 r1 r2 usl run])
  then show "case sync_with_service sv st media_item webhook_context should_monitor force
                  is_retry original_log_id of
             (st', es) \<Rightarrow>
               remote_calls es = cs @ [Sonarr_GET_episode_id episode_id]
               \<and> filter is_monitoring_call (remote_calls es) = filter is_monitoring_call cs
               \<and> (let lid = fst (snd (update_sync_log st_mapped media_item should_monitor
                                       ''sonarr'' is_retry original_log_id))
                  in lid \<in> log_id ` set (sync_logs st')
                     \<and> (\<forall>l\<in>set (sync_logs st'). log_id l = lid
                           \<longrightarrow> log_status l = COMPLETED))"
    unfolding run usl by simp
qed

theorem special_episodes_ignored_witness:
  "(sn_episode_id sonarr_specials 5 = Content episode_special
      \<and> episode_seasonNumber episode_special = Some 0)
   \<and> update_episode_monitoring sonarr_specials True 5 False
        = ([Sonarr_GET_episode_id 5], Inr True)
   \<and> first_match (\<lambda>m. sm_media_item_id m = mi_id item_special) (sonarr_mappings store_one)
        = Some mapping_special
   \<and> (sv_ignore_special_episodes services_specials \<and> mi_media_type item_special = EPISODE
        \<and> sonarr_mapping_for services_specials store_one item_special None
            = ([], Inr (Some (store_one, mapping_special)))
        \<and> sonarr_episode_id mapping_special = Some 5 \<and> (5::int) \<noteq> 0
        \<and> sn_episode_id (sv_sonarr services_specials) 5 = Content episode_special
        \<and> episode_seasonNumber episode_special = Some 0)
   \<and> (case sync_with_service services_specials store_one item_special None False False
              False None of
         (st', es) \<Rightarrow>
           remote_calls es = [] @ [Sonarr_GET_episode_id 5]
           \<and> filter is_monitoring_call (remote_calls es) = filter is_monitoring_call []
           \<and> (let lid = fst (snd (update_sync_log store_one item_special False ''sonarr''
                                   False None))
              in lid \<in> log_id ` set (sync_logs st')
                 \<and> (\<forall>l\<in>set (sync_logs st'). log_id l = lid
                       \<longrightarrow> log_status l = COMPLETED)))
   \<and> (sv_ignore_special_episodes services_first \<and> mi_media_type item_special = EPISODE
        \<and> sonarr_mapping_for services_first store_first item_special None
            = ([Sonarr_GET_series, Sonarr_GET_episode_list 1],
               Inr (Some (store_first\<lparr>sonarr_mappings := [mapping_special]\<rparr>,
                          mapping_special)))
        \<and> sonarr_episode_id mapping_special = Some 5 \<and> (5::int) \<noteq> 0
        \<and> sn_episode_id (sv_sonarr services_first) 5 = Content episode_special
        \<and> episode_seasonNumber episode_special = Some 0)
   \<and> (case sync_with_service services_first store_first item_special None False False
              False None of
         (st', es) \<Rightarrow>
           remote_calls es
             = [Sonarr_GET_series, Sonarr_GET_episode_list 1] @ [Sonarr_GET_episode_id 5]
           \<and> filter is_monitoring_call (remote_calls es)
               = filter is_monitoring_call [Sonarr_GET_series, Sonarr_GET_episode_list 1]
           \<and> (let lid = fst (snd (update_sync_log
                                   (store_first\<lparr>sonarr_mappings := [mapping_special]\<rparr>)
                                   item_special False ''sonarr'' False None))
              in lid \<in> log_id ` set (sync_logs st')
                 \<and> (\<forall>l\<in>set (sync_logs st'). log_id l = lid
                       \<longrightarrow> log_status l = COMPLETED)))"
  (is "?H1 \<and> ?B \<and> ?H2 \<and> ?H3 \<and> ?C3 \<and> ?H4 \<and> ?C4")
proof -
  have h1: ?H1
    by (simp add: sonarr_specials_def episode_special_def)
  have h2: ?H2
    by (simp add: item_special_def store_one_def mapping_special_def)
  note inst = special_episodes_ignored [where sn = sonarr_specials and series_id = 1
      and monitored = False and episode_id = 5 and ep = episode_special
      and sv = services_specials and media_item = item_special and st = store_one
      and st_mapped = store_one and cs = "[]"
      and mapping = mapping_special and webhook_context = None and should_monitor = False
      and force = False and is_retry = False and original_log_id = None]
  note first = special_episodes_ignored [where sn = sonarr_specials and series_id = 1
      and monitored = False and episode_id = 5 and ep = episode_special
      and sv = services_first and media_item = item_special and st = store_first
      and st_mapped = "store_first\<lparr>sonarr_mappings := [mapping_special]\<rparr>"
      and cs = "[Sonarr_GET_series, Sonarr_GET_episode_list 1]"
      and mapping = mapping_special and webhook_context = None and should_monitor = False
      and force = False and is_retry = False and original_log_id = None]
  have b: ?B by (rule inst [THEN conjunct2, THEN conjunct1, THEN mp, OF h1])
  have m: "sonarr_mapping_for services_specials store_one item_special None
      = ([], Inr (Some (store_one, mapping_special)))"
    by (rule inst [THEN conjunct2, THEN conjunct2, THEN conjunct1, THEN mp, OF h2])
  have h3: ?H3
    using m
    by (simp add: services_specials_def item_special_def mapping_special_def
        sonarr_specials_def episode_special_def)
  have c3: ?C3
    by (rule inst [THEN conjunct2, THEN conjunct2, THEN conjunct2, THEN mp, OF h3])
  have m4: "sonarr_mapping_for services_first store_first item_special None
      = ([Sonarr_GET_series, Sonarr_GET_episode_list 1],
         Inr (Some (store_first\<lparr>sonarr_mappings := [mapping_special]\<rparr>, mapping_special)))"
    by code_simp
  have h4: ?H4
    using m4
    by (simp add: services_first_def services_specials_def sonarr_first_def
        item_special_def mapping_special_def sonarr_specials_def episode_special_def)
  have c4: ?C4
    by (rule first [THEN conjunct2, THEN conjunct2, THEN conjunct2, THEN mp, OF h4])
  show ?thesis
    by (rule conjI [OF h1 conjI [OF b conjI [OF h2 conjI [OF h3 conjI [OF c3
          conjI [OF h4 c4]]]]]])
qed

lemma watched_status_of_calls:
  "watched_status_of sv webhook_data = (calls, r)
     \<Longrightarrow> c \<in> set calls \<Longrightarrow> c = Jellyfin_GET_item (wd_jellyfin_id webhook_data)"
  by (cases "wd_is_watched webhook_data")
    (auto simp: watched_status_of_def io_return_def io_bind_def make_request_def
      split: reply.splits)

lemma get_or_create_tables:
  "get_or_create_media_item_from_jellyfin st media_info = (st1, found)
     \<Longrightarrow> sonarr_mappings st1 = sonarr_mappings st \<and> radarr_mappings st1 = radarr_mappings st
         \<and> sync_logs st1 = sync_logs st"
  by (auto simp: get_or_create_media_item_from_jellyfin_def Let_def
      split: option.splits if_splits)

lemma sync_with_service_selects:
  "Select_sonarr_mapping (mi_id media_item)
       \<in> set (snd (sync_with_service sv st media_item webhook_context should_monitor force
                     is_retry original_log_id))
   \<or> Select_radarr_mapping (mi_id media_item)
       \<in> set (snd (sync_with_service sv st media_item webhook_context should_monitor force
                     is_retry original_log_id))"
proof (cases "mi_media_type media_item \<in> {EPISODE, SERIES, SEASON}")
  case True
  have "Select_sonarr_mapping (mi_id media_item)
      \<in> set (snd (sync_with_sonarr sv st media_item webhook_context should_monitor
                    is_retry original_log_id))"
    by (auto simp: sync_with_sonarr_def split: prod.splits sum.splits option.splits)
  with True show ?thesis by (simp add: sync_with_service_def)
next
  case False
  have "Select_radarr_mapping (mi_id media_item)
      \<in> set (snd (sync_with_radarr sv st media_item webhook_context should_monitor
                    is_retry original_log_id))"
    by (auto simp: sync_with_radarr_def split: prod.splits sum.splits option.splits)
  with False show ?thesis by (simp add: sync_with_service_def)
qed

text \<open>
  C2. Take an event whose watched flag equals the flag stored on its media item (the row
  loaded, or created unwatched, for it). Without force the pipeline returns right there:
  it selects no mapping, sends no request to Sonarr or Radarr (the only request there can
  be is the one to Jellyfin that fetched the flag), writes no status and leaves the
  mapping and audit tables as they were. With force the sync executor runs on the item
  all the same, beginning with its select on the mapping table.
\<close>

theorem unchanged_flag_skips_unless_forced:
  "watched_status_of sv webhook_data = (calls, Inr (Some (is_watched, media_info)))
     \<and> get_or_create_media_item_from_jellyfin st media_info = (st', Some media_item)
     \<and> mi_is_watched media_item = is_watched
   \<longrightarrow> (process_watched_status_change sv st webhook_data False is_retry original_log_id
            = (st', map Remote calls)
        \<and> (\<forall>c\<in>set calls. c = Jellyfin_GET_item (wd_jellyfin_id webhook_data))
        \<and> sonarr_mappings st' = sonarr_mappings st \<and> radarr_mappings st' = radarr_mappings st
        \<and> sync_logs st' = sync_logs st)
     \<and> (process_watched_status_change sv st webhook_data True is_retry original_log_id
            = (case sync_with_service sv
                      (st'\<lparr>media_items :=
                             update_where (\<lambda>m. mi_id m = mi_id media_item)
                               (\<lambda>m. m\<lparr>mi_is_watched := is_watched\<rparr>) (media_items st')\<rparr>)
                      (media_item\<lparr>mi_is_watched := is_watched\<rparr>)
                      (if wd_is_watched webhook_data \<noteq> None then Some webhook_data else None)
                      (\<not> is_watched) True is_retry original_log_id of
                 (st3, es') \<Rightarrow> (st3, map Remote calls @ es'))
        \<and> (Select_sonarr_mapping (mi_id media_item)
              \<in> set (snd (process_watched_status_change sv st webhook_data True is_retry
                            original_log_id))
            \<or> Select_radarr_mapping (mi_id media_item)
              \<in> set (snd (process_watched_status_change sv st webhook_data True is_retry
                            original_log_id))))"
proof (intro impI)
  assume a: "watched_status_of sv webhook_data = (calls, Inr (Some (is_watched, media_info)))
     \<and> get_or_create_media_item_from_jellyfin st media_info = (st', Some media_item)
     \<and> mi_is_watched media_item = is_watched"
  then have w: "watched_status_of sv webhook_data = (calls, Inr (Some (is_watched, media_info)))"
    and g: "get_or_create_media_item_from_jellyfin st media_info = (st', Some media_item)"
    and eq: "mi_is_watched media_item = is_watched" by simp_all
  let ?sync = "sync_with_service sv
      (st'\<lparr>media_items := update_where (\<lambda>m. mi_id m = mi_id media_item)
         (\<lambda>m. m\<lparr>mi_is_watched := is_watched\<rparr>) (media_items st')\<rparr>)
      (media_item\<lparr>mi_is_watched := is_watched\<rparr>)
      (if wd_is_watched webhook_data \<noteq> None then Some webhook_data else None)
      (\<not> is_watched) True is_retry original_log_id"
  have skip: "process_watched_status_change sv st webhook_data False is_retry original_log_id
      = (st', map Remote calls)"
    using w g eq by (simp add: process_watched_status_change_def)
  have forced: "process_watched_status_change sv st webhook_data True is_retry original_log_id
      = (case ?sync of (st3, es') \<Rightarrow> (st3, map Remote calls @ es'))"
    using w g by (simp add: process_watched_status_change_def Let_def)
  have sel: "Select_sonarr_mapping (mi_id media_item) \<in> set (snd ?sync)
      \<or> Select_radarr_mapping (mi_id media_item) \<in> set (snd ?sync)"
    using sync_with_service_selects [of "media_item\<lparr>mi_is_watched := is_watched\<rparr>"] by simp
  have "snd (process_watched_status_change sv st webhook_data True is_retry original_log_id)
      = map Remote calls @ snd ?sync"
    unfolding forced by (simp add: split_beta)
  with sel have sel': "Select_sonarr_mapping (mi_id media_item)
        \<in> set (snd (process_watched_status_change sv st webhook_data True is_retry
                      original_log_id))
      \<or> Select_radarr_mapping (mi_id media_item)
        \<in> set (snd (process_watched_status_change sv st webhook_data True is_retry
                      original_log_id))"
    by auto
  have only: "\<forall>c\<in>set calls. c = Jellyfin_GET_item (wd_jellyfin_id webhook_data)"
    using watched_status_of_calls [OF w] by blast
  from skip only get_or_create_tables [OF g] forced sel'
  show "(process_watched_status_change sv st webhook_data False is_retry original_log_id
            = (st', map Remote calls)
        \<and> (\<forall>c\<in>set calls. c = Jellyfin_GET_item (wd_jellyfin_id webhook_data))
        \<and> sonarr_mappings st' = sonarr_mappings st \<and> radarr_mappings st' = radarr_mappings st
        \<and> sync_logs st' = sync_logs st)
     \<and> (process_watched_status_change sv st webhook_data True is_retry original_log_id
            = (case ?sync of (st3, es') \<Rightarrow> (st3, map Remote calls @ es'))
        \<and> (Select_sonarr_mapping (mi_id media_item)
              \<in> set (snd (process_watched_status_change sv st webhook_data True is_retry
                            original_log_id))
            \<or> Select_radarr_mapping (mi_id media_item)
              \<in> set (snd (process_watched_status_change sv st webhook_data True is_retry
                            original_log_id))))"
    by blast
qed

theorem unchanged_flag_skips_unless_forced_witness:
  "(watched_status_of services_specials event_watched
      = ([], Inr (Some (True, media_info_of_webhook event_watched True)))
     \<and> get_or_create_media_item_from_jellyfin store_one (media_info_of_webhook event_watched True)
         = (store_one, Some item_special)
     \<and> mi_is_watched item_special = True)
   \<and> process_watched_status_change services_specials store_one event_watched False False None
       = (store_one, [])
   \<and> (Select_sonarr_mapping (mi_id item_special)
         \<in> set (snd (process_watched_status_change services_specials store_one event_watched
                       True False None))
       \<or> Select_radarr_mapping (mi_id item_special)
         \<in> set (snd (process_watched_status_change services_specials store_one event_watched
                       True False None)))
   \<and> remote_calls (snd (process_watched_status_change services_specials store_one
                           event_watched True False None)) = [Sonarr_GET_episode_id 5]"
  (is "?H \<and> ?A \<and> ?B \<and> ?C")
proof -
  have h: ?H by code_simp
  have c: ?C by code_simp
  note inst = unchanged_flag_skips_unless_forced [where sv = services_specials
      and webhook_data = event_watched and calls = "[]" and is_watched = True
      and media_info = "media_info_of_webhook event_watched True" and st = store_one
      and st' = store_one and media_item = item_special and is_retry = False
      and original_log_id = None]
  from inst h have a: ?A by simp
  from inst h have b: ?B by blast
  show ?thesis by (rule conjI [OF h conjI [OF a conjI [OF b c]]])
qed

section \<open>Properties of the webhook ingress\<close>





lemma returned_code: "status_code (returned s m) = 200"
  by (simp add: returned_def)

lemma http_exception_code: "status_code (http_exception code detail) = code"
  by (simp add: http_exception_def)

lemma parse_body_codes: "parse_body request content_type = Inl code \<Longrightarrow> code = 500 \<or> code = 422"
  by (auto simp: parse_body_def split: if_splits parsed.splits)

lemma invalid_token_iff:
  "invalid_token webhook_token request
     \<longleftrightarrow> (\<exists>token. webhook_token = Some token \<and> token \<noteq> []
                \<and> req_authorization request \<noteq> Some (''Bearer '' @ token))"
  by (cases webhook_token; cases "req_authorization request")
    (auto simp: invalid_token_def truthy_str_def Let_def)

lemma jellyfin_webhook_401:
  "status_code (fst (jellyfin_webhook webhook_token request)) = 401
     \<longleftrightarrow> invalid_token webhook_token request"
proof (cases "invalid_token webhook_token request")
  case True
  then show ?thesis by (simp add: jellyfin_webhook_def http_exception_code)
next
  case False
  let ?ct = "content_type_of request"
  have "status_code (fst (jellyfin_webhook webhook_token request)) \<noteq> 401"
  proof (cases "req_body request = []")
    case True
    with False show ?thesis by (simp add: jellyfin_webhook_def returned_code)
  next
    case body: False
    show ?thesis
    proof (cases "parse_body request ?ct")
      case (Inl code)
      with parse_body_codes [OF Inl] False body show ?thesis
        by (auto simp: jellyfin_webhook_def http_exception_code)
    next
      case (Inr payload)
      with False body show ?thesis
        by (simp add: jellyfin_webhook_def returned_code)
    qed
  qed
  with False show ?thesis by simp
qed

text \<open>
  C10. With no webhook token configured, the endpoint does not authenticate: its answer
  is the same whatever the \<open>Authorization\<close> header is, present or not, and it is never a
  401. A 401 is returned exactly when a token is configured and the header is not
  \<open>Bearer\<close> followed by that token.
\<close>

theorem no_token_no_authentication:
  "jellyfin_webhook None (request\<lparr>req_authorization := auth_header\<rparr>)
     = jellyfin_webhook None request
   \<and> status_code (fst (jellyfin_webhook None request)) \<noteq> 401
   \<and> (status_code (fst (jellyfin_webhook webhook_token request)) = 401
        \<longleftrightarrow> (\<exists>token. webhook_token = Some token \<and> token \<noteq> []
                   \<and> req_authorization request \<noteq> Some (''Bearer '' @ token)))"
proof (intro conjI)
  show "jellyfin_webhook None (request\<lparr>req_authorization := auth_header\<rparr>)
     = jellyfin_webhook None request"
    by (simp add: jellyfin_webhook_def invalid_token_def parse_body_def content_type_of_def)
  show "status_code (fst (jellyfin_webhook None request)) \<noteq> 401"
    unfolding jellyfin_webhook_401 by (simp add: invalid_token_def)
  show "status_code (fst (jellyfin_webhook webhook_token request)) = 401
        \<longleftrightarrow> (\<exists>token. webhook_token = Some token \<and> token \<noteq> []
                   \<and> req_authorization request \<noteq> Some (''Bearer '' @ token))"
    unfolding jellyfin_webhook_401 by (rule invalid_token_iff)
qed

theorem no_token_no_authentication_witness:
  "jellyfin_webhook None (request_played\<lparr>req_authorization := Some ''Basic abc''\<rparr>)
     = jellyfin_webhook None request_played
   \<and> status_code (fst (jellyfin_webhook None request_played)) = 200
   \<and> status_code (fst (jellyfin_webhook (Some ''secret'')
        (request_played\<lparr>req_authorization := Some ''Basic abc''\<rparr>))) = 401
   \<and> status_code (fst (jellyfin_webhook (Some ''secret'') request_played)) = 200"
  (is "?A \<and> ?B \<and> ?C \<and> ?D")
proof -
  have a: ?A
    by (rule no_token_no_authentication [where request = request_played, THEN conjunct1])
  have b: ?B by code_simp
  have "\<exists>token. Some ''secret'' = Some token \<and> token \<noteq> []
      \<and> req_authorization (request_played\<lparr>req_authorization := Some ''Basic abc''\<rparr>)
          \<noteq> Some (''Bearer '' @ token)" by simp
  then have c: ?C
    using no_token_no_authentication [where request =
          "request_played\<lparr>req_authorization := Some ''Basic abc''\<rparr>"
        and webhook_token = "Some ''secret''", THEN conjunct2, THEN conjunct2] by blast
  have d: ?D by code_simp
  show ?thesis by (rule conjI [OF a conjI [OF b conjI [OF c d]]])
qed

lemma jellyfin_webhook_refused:
  "invalid_token webhook_token request
     \<Longrightarrow> jellyfin_webhook webhook_token request
           = (http_exception 401 ''Invalid webhook token'', None)"
  by (simp add: jellyfin_webhook_def)

lemma jellyfin_webhook_empty_body:
  "\<not> invalid_token webhook_token request \<Longrightarrow> req_body request = []
     \<Longrightarrow> jellyfin_webhook webhook_token request
           = (returned ''accepted''
                ''Empty webhook body received - check Jellyfin configuration'', None)"
  by (simp add: jellyfin_webhook_def)

lemma jellyfin_webhook_parsed:
  "\<not> invalid_token webhook_token request \<Longrightarrow> req_body request \<noteq> []
     \<Longrightarrow> parse_body request (content_type_of request) = Inr payload
     \<Longrightarrow> jellyfin_webhook webhook_token request
           = (if empty_template payload
              then (returned ''accepted''
                      ''Empty template data - check Jellyfin webhook configuration'', None)
              else (returned ''accepted'' ''Webhook received and queued for processing'',
                    Some payload))"
  by (simp add: jellyfin_webhook_def)

lemma jellyfin_webhook_unparsed:
  "\<not> invalid_token webhook_token request \<Longrightarrow> req_body request \<noteq> []
     \<Longrightarrow> parse_body request (content_type_of request) = Inl code
     \<Longrightarrow> jellyfin_webhook webhook_token request
           = (http_exception code
               (if code = 422 then ''Invalid JSON payload'' else ''Internal server error''),
              None)"
  by (simp add: jellyfin_webhook_def)

lemma jellyfin_webhook_queued:
  assumes "snd (jellyfin_webhook webhook_token request) = Some payload"
  shows "jellyfin_webhook webhook_token request
           = (returned ''accepted'' ''Webhook received and queued for processing'',
              Some payload)"
proof -
  have v: "\<not> invalid_token webhook_token request"
    using assms jellyfin_webhook_refused [of webhook_token request] by auto
  have b: "req_body request \<noteq> []"
    using assms v jellyfin_webhook_empty_body [of webhook_token request] by auto
  show ?thesis
  proof (cases "parse_body request (content_type_of request)")
    case (Inl code)
    with assms v b jellyfin_webhook_unparsed [of webhook_token request code]
    show ?thesis by simp
  next
    case (Inr p)
    with assms v b jellyfin_webhook_parsed [of webhook_token request p]
    show ?thesis by (simp split: if_splits)
  qed
qed

text \<open>
  The slip the amended claim of C7 leaves out: an unparseable body sent with a content
  type that contains \<open>application/json\<close> is answered with 500, not 422.
\<close>

lemma unparseable_json_body_500:
  "jellyfin_webhook (Some ''secret'') request_garbled_json
     = (\<lparr>status_code = 500, body_status = ''error'',
          body_message = ''Internal server error''\<rparr>, None)"
  by code_simp

text \<open>
  C7, as the code has it. The request is authorised, its body is a parseable playback
  event, and the payload is queued for the background task; the response is the
  dictionary the handler returns, sent with the default status code 200, not 202.
\<close>

theorem queued_webhook_status_counterexample:
  "jellyfin_webhook (Some ''secret'') request_played
     = (\<lparr>status_code = 200, body_status = ''accepted'',
          body_message = ''Webhook received and queued for processing''\<rparr>,
        Some payload_played)
   \<and> status_code (fst (jellyfin_webhook (Some ''secret'') request_played)) \<noteq> 202"
  by code_simp

text \<open>
  C7, amended. Whenever the endpoint queues a payload, its response is 200 with the body
  \<open>accepted\<close>, \<open>Webhook received and queued for processing\<close>. A request whose token check
  fails is answered with 401. For a request that passes the token check: an empty body is
  answered with 200 and an accepted-but-ignored body; a non-empty body whose content type
  does not contain \<open>application/json\<close> and that \<open>json.loads\<close> rejects is answered with 422;
  a parsed payload that is a dictionary with no non-empty string value is answered with
  200 and an accepted-but-ignored body, nothing queued; any other parsed payload is
  queued.
\<close>

theorem webhook_responses:
  "(snd (jellyfin_webhook webhook_token request) = Some payload
      \<longrightarrow> fst (jellyfin_webhook webhook_token request)
            = \<lparr>status_code = 200, body_status = ''accepted'',
                body_message = ''Webhook received and queued for processing''\<rparr>)
   \<and> (invalid_token webhook_token request
      \<longrightarrow> jellyfin_webhook webhook_token request
            = (\<lparr>status_code = 401, body_status = ''error'',
                 body_message = ''Invalid webhook token''\<rparr>, None))
   \<and> (\<not> invalid_token webhook_token request \<and> req_body request = []
      \<longrightarrow> jellyfin_webhook webhook_token request
            = (\<lparr>status_code = 200, body_status = ''accepted'',
                 body_message = ''Empty webhook body received - check Jellyfin configuration''\<rparr>,
               None))
   \<and> (\<not> invalid_token webhook_token request \<and> req_body request \<noteq> []
        \<and> \<not> py_in ''application/json'' (content_type_of request)
        \<and> req_loads request = JSONDecodeError
      \<longrightarrow> jellyfin_webhook webhook_token request
            = (\<lparr>status_code = 422, body_status = ''error'',
                 body_message = ''Invalid JSON payload''\<rparr>, None))
   \<and> (\<not> invalid_token webhook_token request \<and> req_body request \<noteq> []
        \<and> parse_body request (content_type_of request) = Inr payload
        \<and> empty_template payload
      \<longrightarrow> jellyfin_webhook webhook_token request
            = (\<lparr>status_code = 200, body_status = ''accepted'',
                 body_message = ''Empty template data - check Jellyfin webhook configuration''\<rparr>,
               None))
   \<and> (\<not> invalid_token webhook_token request \<and> req_body request \<noteq> []
        \<and> parse_body request (content_type_of request) = Inr payload
        \<and> \<not> empty_template payload
      \<longrightarrow> jellyfin_webhook webhook_token request
            = (\<lparr>status_code = 200, body_status = ''accepted'',
                 body_message = ''Webhook received and queued for processing''\<rparr>,
               Some payload))"
proof (intro conjI impI)
  assume "snd (jellyfin_webhook webhook_token request) = Some payload"
  from jellyfin_webhook_queued [OF this]
  show "fst (jellyfin_webhook webhook_token request)
      = \<lparr>status_code = 200, body_status = ''accepted'',
          body_message = ''Webhook received and queued for processing''\<rparr>"
    by (simp add: returned_def)
next
  assume "invalid_token webhook_token request"
  then show "jellyfin_webhook webhook_token request
      = (\<lparr>status_code = 401, body_status = ''error'',
           body_message = ''Invalid webhook token''\<rparr>, None)"
    by (simp add: jellyfin_webhook_refused http_exception_def)
next
  assume "\<not> invalid_token webhook_token request \<and> req_body request = []"
  then show "jellyfin_webhook webhook_token request
      = (\<lparr>status_code = 200, body_status = ''accepted'',
           body_message = ''Empty webhook body received - check Jellyfin configuration''\<rparr>,
         None)"
    by (simp add: jellyfin_webhook_empty_body returned_def)
next
  assume a: "\<not> invalid_token webhook_token request \<and> req_body request \<noteq> []
        \<and> \<not> py_in ''application/json'' (content_type_of request)
        \<and> req_loads request = JSONDecodeError"
  then have "parse_body request (content_type_of request) = Inl 422"
    by (simp add: parse_body_def)
  with a jellyfin_webhook_unparsed [of webhook_token request 422]
  show "jellyfin_webhook webhook_token request
      = (\<lparr>status_code = 422, body_status = ''error'',
           body_message = ''Invalid JSON payload''\<rparr>, None)"
    by (simp add: http_exception_def)
next
  assume a: "\<not> invalid_token webhook_token request \<and> req_body request \<noteq> []
        \<and> parse_body request (content_type_of request) = Inr payload
        \<and> empty_template payload"
  with jellyfin_webhook_parsed [of webhook_token request payload]
  show "jellyfin_webhook webhook_token request
      = (\<lparr>status_code = 200, body_status = ''accepted'',
           body_message = ''Empty template data - check Jellyfin webhook configuration''\<rparr>,
         None)"
    by (simp add: returned_def)
next
  assume a: "\<not> invalid_token webhook_token request \<and> req_body request \<noteq> []
        \<and> parse_body request (content_type_of request) = Inr payload
        \<and> \<not> empty_template payload"
  with jellyfin_webhook_parsed [of webhook_token request payload]
  show "jellyfin_webhook webhook_token request
      = (\<lparr>status_code = 200, body_status = ''accepted'',
           body_message = ''Webhook received and queued for processing''\<rparr>,
         Some payload)"
    by (simp add: returned_def)
qed

theorem webhook_responses_witness:
  "invalid_token (Some ''secret'') (request_played\<lparr>req_authorization := None\<rparr>)
   \<and> jellyfin_webhook (Some ''secret'') (request_played\<lparr>req_authorization := None\<rparr>)
       = (\<lparr>status_code = 401, body_status = ''error'',
            body_message = ''Invalid webhook token''\<rparr>, None)
   \<and> (\<not> invalid_token (Some ''secret'') (request_played\<lparr>req_body := []\<rparr>)
       \<and> req_body (request_played\<lparr>req_body := []\<rparr>) = [])
   \<and> jellyfin_webhook (Some ''secret'') (request_played\<lparr>req_body := []\<rparr>)
       = (\<lparr>status_code = 200, body_status = ''accepted'',
            body_message = ''Empty webhook body received - check Jellyfin configuration''\<rparr>,
          None)
   \<and> (\<not> invalid_token (Some ''secret'') request_garbled \<and> req_body request_garbled \<noteq> []
       \<and> \<not> py_in ''application/json'' (content_type_of request_garbled)
       \<and> req_loads request_garbled = JSONDecodeError)
   \<and> jellyfin_webhook (Some ''secret'') request_garbled
       = (\<lparr>status_code = 422, body_status = ''error'',
            body_message = ''Invalid JSON payload''\<rparr>, None)
   \<and> (\<not> invalid_token (Some ''secret'') request_template \<and> req_body request_template \<noteq> []
       \<and> parse_body request_template (content_type_of request_template)
           = Inr (JObj [(''ItemId'', JStr []), (''UserId'', JStr [])])
       \<and> empty_template (JObj [(''ItemId'', JStr []), (''UserId'', JStr [])]))
   \<and> jellyfin_webhook (Some ''secret'') request_template
       = (\<lparr>status_code = 200, body_status = ''accepted'',
            body_message = ''Empty template data - check Jellyfin webhook configuration''\<rparr>,
          None)
   \<and> (\<not> invalid_token (Some ''secret'') request_played \<and> req_body request_played \<noteq> []
       \<and> parse_body request_played (content_type_of request_played) = Inr payload_played
       \<and> \<not> empty_template payload_played)
   \<and> jellyfin_webhook (Some ''secret'') request_played
       = (\<lparr>status_code = 200, body_status = ''accepted'',
            body_message = ''Webhook received and queued for processing''\<rparr>,
          Some payload_played)
   \<and> snd (jellyfin_webhook (Some ''secret'') request_played) = Some payload_played
   \<and> fst (jellyfin_webhook (Some ''secret'') request_played)
       = \<lparr>status_code = 200, body_status = ''accepted'',
           body_message = ''Webhook received and queued for processing''\<rparr>"
  (is "?H1 \<and> ?C1 \<and> ?H2 \<and> ?C2 \<and> ?H3 \<and> ?C3 \<and> ?H4 \<and> ?C4 \<and> ?H5 \<and> ?C5 \<and> ?H6 \<and> ?C6")
proof -
  have h1: ?H1 by code_simp
  have h2: ?H2 by code_simp
  have h3: ?H3 by code_simp
  have h4: ?H4 by code_simp
  have h5: ?H5 by code_simp
  have c1: ?C1
    by (rule webhook_responses [where webhook_token = "Some ''secret''"
          and request = "request_played\<lparr>req_authorization := None\<rparr>",
          THEN conjunct2, THEN conjunct1, THEN mp, OF h1])
  have c2: ?C2
    by (rule webhook_responses [where webhook_token = "Some ''secret''"
          and request = "request_played\<lparr>req_body := []\<rparr>",
          THEN conjunct2, THEN conjunct2, THEN conjunct1, THEN mp, OF h2])
  have c3: ?C3
    by (rule webhook_responses [where webhook_token = "Some ''secret''"
          and request = request_garbled,
          THEN conjunct2, THEN conjunct2, THEN conjunct2, THEN conjunct1, THEN mp, OF h3])
  have c4: ?C4
    by (rule webhook_responses [where webhook_token = "Some ''secret''"
          and request = request_template
          and payload = "JObj [(''ItemId'', JStr []), (''UserId'', JStr [])]",
          THEN conjunct2, THEN conjunct2, THEN conjunct2, THEN conjunct2, THEN conjunct1,
          THEN mp, OF h4])
  have c5: ?C5
    by (rule webhook_responses [where webhook_token = "Some ''secret''"
          and request = request_played and payload = payload_played,
          THEN conjunct2, THEN conjunct2, THEN conjunct2, THEN conjunct2, THEN conjunct2,
          THEN mp, OF h5])
  have h6: ?H6 unfolding c5 by simp
  have c6: ?C6
    by (rule webhook_responses [where webhook_token = "Some ''secret''"
          and request = request_played and payload = payload_played,
          THEN conjunct1, THEN mp, OF h6])
  show ?thesis
    by (rule conjI [OF h1 conjI [OF c1 conjI [OF h2 conjI [OF c2 conjI [OF h3 conjI [OF c3
          conjI [OF h4 conjI [OF c4 conjI [OF h5 conjI [OF c5 conjI [OF h6 c6]]]]]]]]]]])
qed

end
